theory Spec2Isabelle
  imports Complex_Main
begin

section \<open>Text primitives of the fallback classifier\<close>

text \<open>
  Python strings are modelled as \<open>string\<close> restricted to ASCII text. A Python float is
  modelled as the \<open>real\<close> number that it stands for exactly. Comparing two floats and
  printing a float are exact on these numbers; where the code adds or subtracts floats,
  the rounding of the result is taken from outside (\<open>float_sum\<close> and \<open>float_round\<close>
  below), and infinities and NaN are left out.
\<close>

text \<open>The operator \<^verbatim>\<open>sub in s\<close> on strings.\<close>

fun starts_with :: "string \<Rightarrow> string \<Rightarrow> bool" where
  "starts_with [] s = True"
| "starts_with (p # ps) [] = False"
| "starts_with (p # ps) (c # cs) = (p = c \<and> starts_with ps cs)"

fun py_in :: "string \<Rightarrow> string \<Rightarrow> bool" where
  "py_in sub [] = (sub = [])"
| "py_in sub (c # cs) = (starts_with sub (c # cs) \<or> py_in sub cs)"

text \<open>\<^verbatim>\<open>str.lower()\<close> on ASCII letters.\<close>

definition lower_char :: "char \<Rightarrow> char" where
  "lower_char c =
     (case map_of (zip ''ABCDEFGHIJKLMNOPQRSTUVWXYZ'' ''abcdefghijklmnopqrstuvwxyz'') c of
        Some l \<Rightarrow> l
      | None \<Rightarrow> c)"

definition lower :: "string \<Rightarrow> string" where
  "lower s = map lower_char s"

text \<open>\<^verbatim>\<open>text.replace(',', '')\<close>.\<close>

definition replace_commas :: "string \<Rightarrow> string" where
  "replace_commas s = filter (\<lambda>c. c \<noteq> CHR '','') s"

text \<open>The class \<^verbatim>\<open>\d\<close> and the value of a run of digits.\<close>

definition is_digit :: "char \<Rightarrow> bool" where
  "is_digit c = (c \<in> set ''0123456789'')"

definition digit_val :: "char \<Rightarrow> nat" where
  "digit_val c =
     (case map_of (zip ''0123456789'' [0, 1, 2, 3, 4, 5, 6, 7, 8, 9]) c of
        Some d \<Rightarrow> d
      | None \<Rightarrow> 0)"

definition digits_val :: "string \<Rightarrow> nat" where
  "digits_val ds = foldl (\<lambda>a c. 10 * a + digit_val c) 0 ds"

subsection \<open>The pattern \<^verbatim>\<open>\d+(?:,\d{3})*(?:\.\d+)?\<close>\<close>

text \<open>
  Every part of the pattern after \<^verbatim>\<open>\d+\<close> is optional, so the greedy first attempt of
  the matcher always succeeds and no backtracking takes place: a match at the start of
  \<open>s\<close> is the longest run of digits, then as many groups \<^verbatim>\<open>,ddd\<close> as follow, then a
  dot with its run of digits when there is one. Each function returns the text it
  consumed and the text that is left.
\<close>

fun comma_groups :: "string \<Rightarrow> string \<times> string" where
  "comma_groups (c # d1 # d2 # d3 # r) =
     (if c = CHR '','' \<and> is_digit d1 \<and> is_digit d2 \<and> is_digit d3
      then (case comma_groups r of (g, r') \<Rightarrow> (c # d1 # d2 # d3 # g, r'))
      else ([], c # d1 # d2 # d3 # r))"
| "comma_groups r = ([], r)"

definition fraction :: "string \<Rightarrow> string \<times> string" where
  "fraction s =
     (case s of
        [] \<Rightarrow> ([], [])
      | c # t \<Rightarrow>
          if c = CHR ''.'' \<and> takeWhile is_digit t \<noteq> []
          then (c # takeWhile is_digit t, dropWhile is_digit t)
          else ([], s))"

definition match_number :: "string \<Rightarrow> (string \<times> string) option" where
  "match_number s =
     (if takeWhile is_digit s = [] then None
      else (case comma_groups (dropWhile is_digit s) of
              (g, r2) \<Rightarrow> (case fraction r2 of
                 (f, r3) \<Rightarrow> Some (takeWhile is_digit s @ g @ f, r3))))"

lemma comma_groups_append: "comma_groups r = (g, r') \<Longrightarrow> r = g @ r'"
proof (induction r arbitrary: g r' rule: comma_groups.induct)
  case (1 c d1 d2 d3 r)
  then show ?case
    by (auto split: if_splits prod.splits)
qed auto

lemma fraction_append: "fraction s = (f, r) \<Longrightarrow> s = f @ r"
  by (auto simp: fraction_def split: list.splits if_splits)

lemma match_number_append:
  assumes "match_number s = Some (m, rest)"
  shows "s = m @ rest \<and> m \<noteq> []"
proof -
  from assms have ne: "takeWhile is_digit s \<noteq> []"
    by (auto simp: match_number_def split: if_splits)
  obtain g r2 where g: "comma_groups (dropWhile is_digit s) = (g, r2)"
    by (cases "comma_groups (dropWhile is_digit s)")
  obtain f r3 where f: "fraction r2 = (f, r3)"
    by (cases "fraction r2")
  from assms ne g f have m: "m = takeWhile is_digit s @ g @ f" and r: "rest = r3"
    by (auto simp: match_number_def)
  have "s = takeWhile is_digit s @ dropWhile is_digit s"
    by simp
  also have "dropWhile is_digit s = g @ r2"
    using g by (rule comma_groups_append)
  also have "r2 = f @ r3"
    using f by (rule fraction_append)
  finally show ?thesis
    using m r ne by simp
qed

lemma match_number_shorter: "match_number s = Some (m, rest) \<Longrightarrow> length rest < length s"
proof -
  assume "match_number s = Some (m, rest)"
  then have "s = m @ rest" and "m \<noteq> []"
    using match_number_append by blast+
  then have "length s = length m + length rest" and "0 < length m"
    by (metis length_append, simp)
  then show ?thesis by simp
qed

text \<open>\<^verbatim>\<open>re.findall\<close>: the matches from left to right, none overlapping another.\<close>

function findall :: "string \<Rightarrow> string list" where
  "findall [] = []"
| "findall (c # t) =
     (case match_number (c # t) of
        None \<Rightarrow> findall t
      | Some (m, rest) \<Rightarrow> m # findall rest)"
  by pat_completeness auto
termination
  by (relation "measure length") (auto dest: match_number_shorter)

subsection \<open>\<^verbatim>\<open>float(...)\<close> on a match of the pattern\<close>

datatype py_error = ValueError | TypeError | ValidationError | StorageError

text \<open>
  \<^verbatim>\<open>float\<close> applied to a text of the pattern's language: digits with an optional
  fraction are read in base ten, and a text with anything else in it (a comma group) is a
  \<^verbatim>\<open>ValueError\<close>, here \<open>None\<close>. The value is the number that the decimal writes,
  which is what \<^verbatim>\<open>float\<close> returns for a decimal that is a float, as 2500 and 18000.50
  are; for any other decimal \<^verbatim>\<open>float\<close> returns the float next to this number.
\<close>

definition py_float :: "string \<Rightarrow> real option" where
  "py_float s =
     (let ip = takeWhile is_digit s; r = dropWhile is_digit s in
      if ip = [] then None
      else (case r of
              [] \<Rightarrow> Some (real (digits_val ip))
            | c # fs \<Rightarrow>
                if c = CHR ''.'' \<and> fs \<noteq> [] \<and> list_all is_digit fs
                then Some (real (digits_val ip) + real (digits_val fs) / 10 ^ length fs)
                else None))"

text \<open>\<^verbatim>\<open>GeminiService._extract_amount\<close>.\<close>

definition extract_amount :: "string \<Rightarrow> py_error + real" where
  "extract_amount text =
     (let numbers = findall (replace_commas text) in
      if numbers \<noteq> []
      then (case py_float (last numbers) of
              None \<Rightarrow> Inl ValueError
            | Some x \<Rightarrow> Inr x)
      else Inr 0)"


subsection \<open>The schemas of \<^verbatim>\<open>app/schemas/financial.py\<close>\<close>

datatype input_type = FINANCIAL_COMMITMENT | BALANCE_UPDATE | QUESTION

text \<open>
  A value of the \<^verbatim>\<open>extracted_data\<close> dictionary, as \<^verbatim>\<open>json.loads\<close> or the fallback
  classifier builds it; \<open>JComposite\<close> stands for a list or a nested object. A key that
  is not in the dictionary maps to \<open>None\<close>.
\<close>

datatype jvalue = JNull | JBool bool | JNum real | JStr string | JComposite

type_synonym payload = "string \<rightharpoonup> jvalue"

record classified_input =
  ci_input_type :: input_type
  ci_confidence :: real
  ci_extracted_data :: payload

subsection \<open>\<^verbatim>\<open>GeminiService._fallback_classification\<close>\<close>

definition balance_keywords :: "string list" where
  "balance_keywords = [''balance'', ''have'', ''now'', ''current'']"

definition question_keywords :: "string list" where
  "question_keywords = [''can i'', ''should i'', ''afford'', ''?'', ''how much'']"

definition fallback_classification :: "string \<Rightarrow> py_error + classified_input" where
  "fallback_classification text =
     (let text_lower = lower text in
      if list_ex (\<lambda>word. py_in word text_lower) balance_keywords
      then (case extract_amount text of
              Inl e \<Rightarrow> Inl e
            | Inr amount \<Rightarrow>
                Inr \<lparr>ci_input_type = BALANCE_UPDATE, ci_confidence = 0.7,
                     ci_extracted_data =
                       [''balance'' \<mapsto> JNum (if amount \<noteq> 0 then amount else 0)]\<rparr>)
      else if list_ex (\<lambda>word. py_in word text_lower) question_keywords
      then (case extract_amount text of
              Inl e \<Rightarrow> Inl e
            | Inr amount \<Rightarrow>
                Inr \<lparr>ci_input_type = QUESTION, ci_confidence = 0.7,
                     ci_extracted_data =
                       [''question'' \<mapsto> JStr text, ''target_amount'' \<mapsto> JNum amount]\<rparr>)
      else (case extract_amount text of
              Inl e \<Rightarrow> Inl e
            | Inr amount \<Rightarrow>
                Inr \<lparr>ci_input_type = FINANCIAL_COMMITMENT, ci_confidence = 0.6,
                     ci_extracted_data =
                       [''description'' \<mapsto> JStr text,
                        ''amount'' \<mapsto> JNum (if amount \<noteq> 0 then amount else 0),
                        ''date'' \<mapsto> JNull]\<rparr>))"

section \<open>What a request meets outside the repository\<close>

type_synonym timestamp = int

text \<open>
  One value of \<open>env\<close> holds, for one request, everything that the code takes from
  outside: the generative backend, the Semantic Index, the clock, the outcome of each
  commit of the Ledger Store, and the conversions of the validation library.
  \<^item> \<open>llm_classification\<close>: the \<^verbatim>\<open>ClassifiedInput\<close> that the \<^verbatim>\<open>try\<close> block of
    \<^verbatim>\<open>classify_and_extract\<close> builds from the backend's answer, \<open>None\<close> when anything in
    that block raises;
  \<^item> \<open>llm_advice\<close>: \<^verbatim>\<open>response.text.strip()\<close> in \<^verbatim>\<open>generate_advice\<close>, \<open>None\<close> when the
    call raises;
  \<^item> \<open>lax_float\<close>, \<open>lax_datetime\<close>: what the validation library makes of a value that is
    not already a number (a numeric string, a boolean) or that stands for a date,
    \<open>None\<close> when it rejects the value;
  \<^item> \<open>isoformat\<close>: \<^verbatim>\<open>datetime.isoformat\<close>; \<open>utcnow\<close>: the clock, which stands for
    \<^verbatim>\<open>datetime.utcnow()\<close> and for the \<^verbatim>\<open>now()\<close> that the store puts into a new row;
  \<^item> \<open>float_sum\<close>: what the built-in \<^verbatim>\<open>sum\<close> returns for two or more floats, each
    addition rounded as the interpreter rounds it; \<open>float_round\<close>: the float that an
    arithmetic operation returns for the exact result that it is given, so that the
    difference of the floats \<open>x\<close> and \<open>y\<close> is \<open>float_round (x - y)\<close>;
  \<^item> \<open>commit_ok\<close>, \<open>commit2_ok\<close>: whether the first and the second \<^verbatim>\<open>db.commit()\<close> of
    the handler go through; reads of the Ledger Store succeed;
  \<^item> \<open>index_store_ok\<close>: whether \<^verbatim>\<open>pinecone_service.store_commitment\<close> returns;
  \<^item> \<open>index_query\<close>: the ids that \<^verbatim>\<open>query_relevant_commitments\<close> returns, \<open>None\<close> when
    it raises.
\<close>

record env =
  llm_classification :: "classified_input option"
  llm_advice :: "string option"
  lax_float :: "jvalue \<Rightarrow> real option"
  lax_datetime :: "jvalue \<Rightarrow> timestamp option"
  isoformat :: "timestamp \<Rightarrow> string"
  utcnow :: timestamp
  float_sum :: "real list \<Rightarrow> real"
  float_round :: "real \<Rightarrow> real"
  commit_ok :: bool
  commit2_ok :: bool
  index_store_ok :: bool
  index_query :: "string list option"

text \<open>\<^verbatim>\<open>GeminiService.classify_and_extract\<close>: the fallback runs in the \<^verbatim>\<open>except\<close> branch.\<close>

definition classify_and_extract :: "env \<Rightarrow> string \<Rightarrow> py_error + classified_input" where
  "classify_and_extract e text =
     (case llm_classification e of
        Some c \<Rightarrow> Inr c
      | None \<Rightarrow> fallback_classification text)"

section \<open>Validation of the extracted payload\<close>

record commitment_data =
  cd_description :: string
  cd_amount :: real
  cd_date :: "timestamp option"

record balance_data =
  bd_balance :: real

record question_data =
  qd_question :: string
  qd_target_amount :: "real option"

definition validate_str :: "jvalue \<Rightarrow> string option" where
  "validate_str v = (case v of JStr s \<Rightarrow> Some s | _ \<Rightarrow> None)"

definition validate_float :: "env \<Rightarrow> jvalue \<Rightarrow> real option" where
  "validate_float e v =
     (case v of
        JNum r \<Rightarrow> Some r
      | JNull \<Rightarrow> None
      | JComposite \<Rightarrow> None
      | _ \<Rightarrow> lax_float e v)"

text \<open>A field \<^verbatim>\<open>Optional[...] = None\<close>: a missing key and a null both give \<open>None\<close>.\<close>

definition validate_optional :: "(jvalue \<Rightarrow> 'a option) \<Rightarrow> jvalue option \<Rightarrow> 'a option option" where
  "validate_optional f v =
     (case v of
        None \<Rightarrow> Some None
      | Some JNull \<Rightarrow> Some None
      | Some x \<Rightarrow> map_option Some (f x))"

text \<open>\<^verbatim>\<open>CommitmentData(**data)\<close>, with \<^verbatim>\<open>amount: float = Field(..., gt=0)\<close>.\<close>

definition CommitmentData :: "env \<Rightarrow> payload \<Rightarrow> py_error + commitment_data" where
  "CommitmentData e d =
     (case (Option.bind (d ''description'') validate_str,
            Option.bind (d ''amount'') (validate_float e),
            validate_optional (lax_datetime e) (d ''date'')) of
        (Some desc, Some a, Some dt) \<Rightarrow>
          if 0 < a then Inr \<lparr>cd_description = desc, cd_amount = a, cd_date = dt\<rparr>
          else Inl ValidationError
      | _ \<Rightarrow> Inl ValidationError)"

text \<open>\<^verbatim>\<open>BalanceData(**data)\<close>, with \<^verbatim>\<open>balance: float = Field(..., ge=0)\<close>.\<close>

definition BalanceData :: "env \<Rightarrow> payload \<Rightarrow> py_error + balance_data" where
  "BalanceData e d =
     (case Option.bind (d ''balance'') (validate_float e) of
        Some b \<Rightarrow> if 0 \<le> b then Inr \<lparr>bd_balance = b\<rparr> else Inl ValidationError
      | None \<Rightarrow> Inl ValidationError)"

text \<open>\<^verbatim>\<open>QuestionData(**data)\<close>.\<close>

definition QuestionData :: "env \<Rightarrow> payload \<Rightarrow> py_error + question_data" where
  "QuestionData e d =
     (case (Option.bind (d ''question'') validate_str,
            validate_optional (validate_float e) (d ''target_amount'')) of
        (Some q, Some t) \<Rightarrow> Inr \<lparr>qd_question = q, qd_target_amount = t\<rparr>
      | _ \<Rightarrow> Inl ValidationError)"

section \<open>Formatting\<close>

text \<open>\<^verbatim>\<open>str(n)\<close> of a natural number.\<close>

fun show_nat :: "nat \<Rightarrow> string" where
  "show_nat n =
     (if n < 10 then [''0123456789'' ! n]
      else show_nat (n div 10) @ [''0123456789'' ! (n mod 10)])"

declare show_nat.simps [simp del]

text \<open>
  The format \<^verbatim>\<open>:.2f\<close>: the number rounded to two decimals, a tie going to the even
  neighbour, with the sign of the number in front.
\<close>

definition round_half_even :: "real \<Rightarrow> int" where
  "round_half_even x =
     (let f = \<lfloor>x\<rfloor>; d = x - of_int f in
      if d < 1 / 2 then f
      else if 1 / 2 < d then f + 1
      else if even f then f else f + 1)"

definition fmt_2f :: "real \<Rightarrow> string" where
  "fmt_2f x =
     (let n = nat (round_half_even (\<bar>x\<bar> * 100)) in
      (if x < 0 then ''-'' else []) @ show_nat (n div 100) @ ''.'' @
      [''0123456789'' ! (n mod 100 div 10), ''0123456789'' ! (n mod 10)])"

section \<open>The Ledger Store\<close>

text \<open>
  The two tables of \<^verbatim>\<open>app/models/financial.py\<close>. The rows of \<^verbatim>\<open>financial_records\<close> are
  kept in the order of their creation, which is the order of \<^verbatim>\<open>created_at\<close>, and the
  primary key \<^verbatim>\<open>id\<close> counts them. \<^verbatim>\<open>user_balances\<close> has \<^verbatim>\<open>user_id\<close> as its primary key.
\<close>

record financial_record =
  rec_id :: nat
  user_id :: string
  input_type :: input_type
  description :: "string option"
  amount :: "real option"
  commitment_date :: "timestamp option"
  balance :: "real option"
  question_text :: "string option"
  raw_input :: string
  vector_id :: "string option"

record user_balance =
  current_balance :: real
  last_updated :: timestamp

record db =
  financial_records :: "financial_record list"
  user_balances :: "string \<rightharpoonup> user_balance"

definition empty_db :: db where
  "empty_db = \<lparr>financial_records = [], user_balances = Map.empty\<rparr>"

text \<open>
  A session collects the writes of a handler, and \<^verbatim>\<open>db.commit()\<close> makes all of them
  durable in one transaction or, when it raises, none of them. A request has a session
  of its own, so the writes of a failed commit are gone with it. \<^verbatim>\<open>db.refresh(record)\<close>
  reads the id that the store gave to the new row.
\<close>

datatype db_op =
    AddRecord financial_record
  | PutBalance string user_balance
  | SetVectorId nat string

definition next_id :: "db \<Rightarrow> nat" where
  "next_id d = Suc (length (financial_records d))"

fun apply_op :: "db \<Rightarrow> db_op \<Rightarrow> db" where
  "apply_op d (AddRecord r) =
     d\<lparr>financial_records := financial_records d @ [r\<lparr>rec_id := next_id d\<rparr>]\<rparr>"
| "apply_op d (PutBalance uid ub) =
     d\<lparr>user_balances := (user_balances d)(uid \<mapsto> ub)\<rparr>"
| "apply_op d (SetVectorId i v) =
     d\<lparr>financial_records :=
         map (\<lambda>r. if rec_id r = i then r\<lparr>vector_id := Some v\<rparr> else r) (financial_records d)\<rparr>"

definition db_commit :: "bool \<Rightarrow> db \<Rightarrow> db_op list \<Rightarrow> py_error + db" where
  "db_commit ok d pending = (if ok then Inr (foldl apply_op d pending) else Inl StorageError)"

text \<open>The query of \<^verbatim>\<open>get_user_history\<close> in \<^verbatim>\<open>app/api/financial.py\<close>.\<close>

definition get_user_history :: "db \<Rightarrow> string \<Rightarrow> nat \<Rightarrow> financial_record list" where
  "get_user_history d uid limit =
     take limit (rev (filter (\<lambda>r. user_id r = uid) (financial_records d)))"

text \<open>
  The query for the upcoming commitments in \<^verbatim>\<open>_handle_question\<close>. In SQL the comparison
  \<^verbatim>\<open>commitment_date >= now\<close> is not true of a row whose date is NULL.
\<close>

definition upcoming_commitments :: "db \<Rightarrow> string \<Rightarrow> timestamp \<Rightarrow> financial_record list" where
  "upcoming_commitments d uid now =
     take 10
       (sort_key (\<lambda>r. case commitment_date r of Some t \<Rightarrow> t | None \<Rightarrow> 0)
          (filter (\<lambda>r. user_id r = uid \<and> input_type r = FINANCIAL_COMMITMENT \<and>
                        (case commitment_date r of Some t \<Rightarrow> now \<le> t | None \<Rightarrow> False))
             (financial_records d)))"

text \<open>\<^verbatim>\<open>user_balance.current_balance if user_balance else 0.0\<close>.\<close>

definition current_balance_of :: "db \<Rightarrow> string \<Rightarrow> real" where
  "current_balance_of d uid =
     (case user_balances d uid of Some ub \<Rightarrow> current_balance ub | None \<Rightarrow> 0)"

section \<open>The Advice Generator\<close>

text \<open>
  The values \<^verbatim>\<open>c.get('amount', 0) for c in upcoming_commitments\<close>: a missing key counts
  0, a boolean counts as the integer it is, and adding anything else is a
  \<^verbatim>\<open>TypeError\<close>.
\<close>

fun amount_values :: "payload list \<Rightarrow> py_error + real list" where
  "amount_values [] = Inr []"
| "amount_values (c # cs) =
     (case amount_values cs of
        Inl e \<Rightarrow> Inl e
      | Inr vs \<Rightarrow>
          (case c ''amount'' of
             None \<Rightarrow> Inr (0 # vs)
           | Some (JNum a) \<Rightarrow> Inr (a # vs)
           | Some (JBool b) \<Rightarrow> Inr (of_bool b # vs)
           | Some _ \<Rightarrow> Inl TypeError))"

text \<open>
  \<^verbatim>\<open>sum(...)\<close> of these values: the sum of nothing is 0 and the sum of one value is that
  value, both without rounding; the sum of more values is \<open>float_sum\<close>.
\<close>

definition sum_amounts :: "env \<Rightarrow> payload list \<Rightarrow> py_error + real" where
  "sum_amounts e upcoming =
     (case amount_values upcoming of
        Inl err \<Rightarrow> Inl err
      | Inr [] \<Rightarrow> Inr 0
      | Inr [a] \<Rightarrow> Inr a
      | Inr vs \<Rightarrow> Inr (float_sum e vs))"

definition advice_wait :: "real \<Rightarrow> real \<Rightarrow> real \<Rightarrow> real \<Rightarrow> string" where
  "advice_wait current total_commitments available_funds target_amount =
     ''Based on your balance of $'' @ fmt_2f current @
     '' and upcoming commitments of $'' @ fmt_2f total_commitments @
     '', you have $'' @ fmt_2f available_funds @
     '' available. The $'' @ fmt_2f target_amount @
     '' purchase exceeds your available funds. Consider waiting until after your commitments are fulfilled.''"

definition advice_affordable :: "real \<Rightarrow> string" where
  "advice_affordable available_funds =
     ''You have $'' @ fmt_2f available_funds @
     '' available after upcoming commitments. This purchase appears affordable, but ensure you maintain an emergency buffer.''"

text \<open>
  \<^verbatim>\<open>GeminiService.generate_advice\<close>. The prompt goes to the backend only, and the
  backend's answer is \<open>llm_advice\<close>. The available funds are the difference of two
  floats, rounded. In \<^verbatim>\<open>if target_amount and ...\<close> a target of 0 is false, like
  \<^verbatim>\<open>None\<close>.
\<close>

definition generate_advice ::
    "env \<Rightarrow> string \<Rightarrow> real \<Rightarrow> payload list \<Rightarrow> real option \<Rightarrow> py_error + string" where
  "generate_advice e question current upcoming target_amount =
     (case sum_amounts e upcoming of
        Inl err \<Rightarrow> Inl err
      | Inr total_commitments \<Rightarrow>
          (let available_funds = float_round e (current - total_commitments) in
           case llm_advice e of
             Some answer \<Rightarrow> Inr answer
           | None \<Rightarrow>
               if (case target_amount of Some t \<Rightarrow> t \<noteq> 0 \<and> available_funds < t | None \<Rightarrow> False)
               then Inr (advice_wait current total_commitments available_funds (the target_amount))
               else Inr (advice_affordable available_funds)))"

section \<open>The handlers of \<^verbatim>\<open>FinancialService\<close>\<close>

record processed_result =
  success :: bool
  message :: string
  data :: "payload option"
  advice :: "string option"

definition json_opt :: "('a \<Rightarrow> jvalue) \<Rightarrow> 'a option \<Rightarrow> jvalue" where
  "json_opt f v = (case v of Some x \<Rightarrow> f x | None \<Rightarrow> JNull)"

text \<open>The id under which \<^verbatim>\<open>store_commitment\<close> files a commitment.\<close>

definition vector_id_of :: "string \<Rightarrow> nat \<Rightarrow> string" where
  "vector_id_of uid i = uid @ ''_'' @ show_nat i"

text \<open>The row that \<^verbatim>\<open>_handle_commitment\<close> adds, with the id that the store gives it.\<close>

definition commitment_record :: "db \<Rightarrow> string \<Rightarrow> string \<Rightarrow> commitment_data \<Rightarrow> financial_record" where
  "commitment_record d uid raw commitment =
     \<lparr>rec_id = next_id d, user_id = uid, input_type = FINANCIAL_COMMITMENT,
      description = Some (cd_description commitment),
      amount = Some (cd_amount commitment),
      commitment_date = cd_date commitment,
      balance = None, question_text = None, raw_input = raw, vector_id = None\<rparr>"

definition handle_commitment ::
    "env \<Rightarrow> db \<Rightarrow> string \<Rightarrow> string \<Rightarrow> payload \<Rightarrow> (py_error + processed_result) \<times> db" where
  "handle_commitment e d uid raw dat =
     (case CommitmentData e dat of
        Inl err \<Rightarrow> (Inl err, d)
      | Inr commitment \<Rightarrow>
          (let record =
                 \<lparr>rec_id = 0, user_id = uid, input_type = FINANCIAL_COMMITMENT,
                  description = Some (cd_description commitment),
                  amount = Some (cd_amount commitment),
                  commitment_date = cd_date commitment,
                  balance = None, question_text = None, raw_input = raw, vector_id = None\<rparr>
           in case db_commit (commit_ok e) d [AddRecord record] of
                Inl err \<Rightarrow> (Inl err, d)
              | Inr d1 \<Rightarrow>
                  (let i = next_id d;
                       d2 = (if index_store_ok e
                             then (case db_commit (commit2_ok e) d1
                                          [SetVectorId i (vector_id_of uid i)] of
                                     Inl err \<Rightarrow> d1
                                   | Inr d' \<Rightarrow> d')
                             else d1)
                   in (Inr \<lparr>success = True,
                            message = ''Added commitment: '' @ cd_description commitment @
                                      '' ($'' @ fmt_2f (cd_amount commitment) @ '')'',
                            data = Some [''id'' \<mapsto> JNum (real i),
                                         ''description'' \<mapsto> JStr (cd_description commitment),
                                         ''amount'' \<mapsto> JNum (cd_amount commitment),
                                         ''date'' \<mapsto> json_opt (\<lambda>t. JStr (isoformat e t))
                                                       (cd_date commitment)],
                            advice = None\<rparr>, d2))))"

definition handle_balance_update ::
    "env \<Rightarrow> db \<Rightarrow> string \<Rightarrow> string \<Rightarrow> payload \<Rightarrow> (py_error + processed_result) \<times> db" where
  "handle_balance_update e d uid raw dat =
     (case BalanceData e dat of
        Inl err \<Rightarrow> (Inl err, d)
      | Inr balance_data \<Rightarrow>
          (let record =
                 \<lparr>rec_id = 0, user_id = uid, input_type = BALANCE_UPDATE,
                  description = None, amount = None, commitment_date = None,
                  balance = Some (bd_balance balance_data),
                  question_text = None, raw_input = raw, vector_id = None\<rparr>;
               row =
                 (case user_balances d uid of
                    Some ub \<Rightarrow> ub\<lparr>current_balance := bd_balance balance_data,
                                  last_updated := utcnow e\<rparr>
                  | None \<Rightarrow> \<lparr>current_balance = bd_balance balance_data,
                              last_updated = utcnow e\<rparr>)
           in case db_commit (commit_ok e) d [AddRecord record, PutBalance uid row] of
                Inl err \<Rightarrow> (Inl err, d)
              | Inr d' \<Rightarrow>
                  (Inr \<lparr>success = True,
                        message = ''Balance updated to $'' @ fmt_2f (bd_balance balance_data),
                        data = Some [''id'' \<mapsto> JNum (real (next_id d)),
                                     ''balance'' \<mapsto> JNum (bd_balance balance_data)],
                        advice = None\<rparr>, d')))"

text \<open>The list \<^verbatim>\<open>upcoming_list\<close> that \<^verbatim>\<open>_handle_question\<close> hands to the Advice Generator.\<close>

definition upcoming_dicts :: "env \<Rightarrow> financial_record list \<Rightarrow> payload list" where
  "upcoming_dicts e upcoming =
     map (\<lambda>u. [''description'' \<mapsto> json_opt JStr (description u),
                ''amount'' \<mapsto> json_opt JNum (amount u),
                ''date'' \<mapsto> json_opt (\<lambda>t. JStr (isoformat e t)) (commitment_date u)])
         upcoming"

definition handle_question ::
    "env \<Rightarrow> db \<Rightarrow> string \<Rightarrow> string \<Rightarrow> payload \<Rightarrow> (py_error + processed_result) \<times> db" where
  "handle_question e d uid raw dat =
     (case QuestionData e dat of
        Inl err \<Rightarrow> (Inl err, d)
      | Inr question_data \<Rightarrow>
          (let current = current_balance_of d uid;
               upcoming = upcoming_commitments d uid (utcnow e);
               upcoming_list = upcoming_dicts e upcoming;
               relevant_commitments = (case index_query e of Some ms \<Rightarrow> ms | None \<Rightarrow> [])
           in case generate_advice e (qd_question question_data) current upcoming_list
                     (qd_target_amount question_data) of
                Inl err \<Rightarrow> (Inl err, d)
              | Inr adv \<Rightarrow>
                  (let record =
                         \<lparr>rec_id = 0, user_id = uid, input_type = QUESTION,
                          description = None, amount = None, commitment_date = None,
                          balance = None,
                          question_text = Some (qd_question question_data),
                          raw_input = raw, vector_id = None\<rparr>
                   in case db_commit (commit_ok e) d [AddRecord record] of
                        Inl err \<Rightarrow> (Inl err, d)
                      | Inr d' \<Rightarrow>
                          (Inr \<lparr>success = True, message = ''Question answered'',
                                data = Some
                                  [''id'' \<mapsto> JNum (real (next_id d)),
                                   ''question'' \<mapsto> JStr (qd_question question_data),
                                   ''current_balance'' \<mapsto> JNum current,
                                   ''upcoming_commitments_count'' \<mapsto>
                                     JNum (real (length upcoming_list)),
                                   ''relevant_commitments_from_vector_db'' \<mapsto>
                                     JNum (real (length relevant_commitments))],
                                advice = Some adv\<rparr>, d'))))"

text \<open>
  \<^verbatim>\<open>FinancialService.process_input\<close>: classify, then route on the kind. The kind is one
  of the three values of the enumeration, so the last \<^verbatim>\<open>return\<close> of the source, "Unable
  to classify input", is never reached.
\<close>

definition process_input ::
    "env \<Rightarrow> db \<Rightarrow> string \<Rightarrow> string \<Rightarrow> (py_error + processed_result) \<times> db" where
  "process_input e d uid text =
     (case classify_and_extract e text of
        Inl err \<Rightarrow> (Inl err, d)
      | Inr classification \<Rightarrow>
          (case ci_input_type classification of
             FINANCIAL_COMMITMENT \<Rightarrow>
               handle_commitment e d uid text (ci_extracted_data classification)
           | BALANCE_UPDATE \<Rightarrow>
               handle_balance_update e d uid text (ci_extracted_data classification)
           | QUESTION \<Rightarrow>
               handle_question e d uid text (ci_extracted_data classification)))"

text \<open>
  A sequence of requests, each with its own environment, user and text; a request that
  fails leaves the store as its handler left it.
\<close>

fun run :: "db \<Rightarrow> (env \<times> string \<times> string) list \<Rightarrow> db" where
  "run d [] = d"
| "run d ((e, uid, text) # reqs) = run (snd (process_input e d uid text)) reqs"

text \<open>The balance amounts of the BALANCE_UPDATE events of a user, oldest first.\<close>

definition balance_history :: "db \<Rightarrow> string \<Rightarrow> real option list" where
  "balance_history d uid =
     map balance
       (filter (\<lambda>r. user_id r = uid \<and> input_type r = BALANCE_UPDATE) (financial_records d))"

text \<open>The store after both writes of the Balance Handler.\<close>

definition balance_written :: "env \<Rightarrow> db \<Rightarrow> string \<Rightarrow> string \<Rightarrow> real \<Rightarrow> db" where
  "balance_written e d uid raw b =
     d\<lparr>financial_records := financial_records d @
         [\<lparr>rec_id = next_id d, user_id = uid, input_type = BALANCE_UPDATE,
           description = None, amount = None, commitment_date = None, balance = Some b,
           question_text = None, raw_input = raw, vector_id = None\<rparr>],
       user_balances :=
         (user_balances d)(uid \<mapsto> \<lparr>current_balance = b, last_updated = utcnow e\<rparr>)\<rparr>"

text \<open>
  The balance row of a user agrees with the balance events of that user: there is no row
  when there is no event, and the row holds the amount of the last event otherwise.
\<close>

definition row_matches :: "db \<Rightarrow> string \<Rightarrow> bool" where
  "row_matches d u =
     (case user_balances d u of
        None \<Rightarrow> balance_history d u = []
      | Some ub \<Rightarrow> balance_history d u \<noteq> [] \<and>
                   last (balance_history d u) = Some (current_balance ub))"

definition balance_consistent :: "db \<Rightarrow> bool" where
  "balance_consistent d = (\<forall>u. row_matches d u)"

text \<open>
  An environment for examples: the generative backend and the Semantic Index are out of
  reach, the validation library converts nothing, and the Ledger Store commits. Its
  arithmetic is exact, as the arithmetic of floats is on the whole numbers of the
  examples.
\<close>

definition offline :: env where
  "offline =
     \<lparr>llm_classification = None, llm_advice = None, lax_float = (\<lambda>v. None),
      lax_datetime = (\<lambda>v. None), isoformat = (\<lambda>t. []), utcnow = 0,
      float_sum = sum_list, float_round = (\<lambda>x. x), commit_ok = True,
      commit2_ok = True, index_store_ok = False, index_query = None\<rparr>"

text \<open>
  A store for examples: user u1 has a commitment dated at time 100 and a commitment
  without a date, and has reported no balance yet.
\<close>

definition ledger_example :: db where
  "ledger_example =
     \<lparr>financial_records =
        [\<lparr>rec_id = 1, user_id = ''u1'', input_type = FINANCIAL_COMMITMENT,
          description = Some ''rent'', amount = Some 2000, commitment_date = Some 100,
          balance = None, question_text = None, raw_input = ''rent 2000'',
          vector_id = None\<rparr>,
         \<lparr>rec_id = 2, user_id = ''u1'', input_type = FINANCIAL_COMMITMENT,
          description = Some ''gift 1500'', amount = Some 1500, commitment_date = None,
          balance = None, question_text = None, raw_input = ''gift 1500'',
          vector_id = None\<rparr>],
      user_balances = Map.empty\<rparr>"

section \<open>Properties of the fallback classifier\<close>

lemmas text_eval =
  extract_amount_def replace_commas_def match_number_def is_digit_def fraction_def
  py_float_def digits_val_def digit_val_def fallback_classification_def lower_def
  lower_char_def balance_keywords_def question_keywords_def

lemma not_digit_dot: "\<not> is_digit (CHR ''.'')"
  by (simp add: is_digit_def)

lemma match_number_no_digit: "\<not> is_digit c \<Longrightarrow> match_number (c # t) = None"
  by (simp add: match_number_def)

lemma findall_no_digits: "\<not> list_ex is_digit s \<Longrightarrow> findall s = []"
  by (induction s) (simp_all add: match_number_no_digit)

lemma replace_commas_no_digits: "\<not> list_ex is_digit s \<Longrightarrow> \<not> list_ex is_digit (replace_commas s)"
  by (simp add: replace_commas_def list_ex_iff)

lemma comma_groups_comma_free: "CHR '','' \<notin> set r \<Longrightarrow> comma_groups r = ([], r)"
  by (cases r rule: comma_groups.cases) auto

lemma takeWhile_all: "list_all P xs \<Longrightarrow> takeWhile P xs = xs"
  by (simp add: list_all_iff)

lemma dropWhile_all: "list_all P xs \<Longrightarrow> dropWhile P xs = []"
  by (simp add: list_all_iff)

lemma takeWhile_digits_dot:
  "list_all is_digit ds \<Longrightarrow> takeWhile is_digit (ds @ CHR ''.'' # fs) = ds"
  by (simp add: list_all_iff takeWhile_append2 not_digit_dot)

lemma dropWhile_digits_dot:
  "list_all is_digit ds \<Longrightarrow> dropWhile is_digit (ds @ CHR ''.'' # fs) = CHR ''.'' # fs"
  by (simp add: list_all_iff dropWhile_append2 not_digit_dot)

lemma py_float_digits:
  "ds \<noteq> [] \<Longrightarrow> list_all is_digit ds \<Longrightarrow> py_float ds = Some (real (digits_val ds))"
  by (simp add: py_float_def takeWhile_all dropWhile_all)

lemma py_float_decimal:
  "ds \<noteq> [] \<Longrightarrow> list_all is_digit ds \<Longrightarrow> fs \<noteq> [] \<Longrightarrow> list_all is_digit fs \<Longrightarrow>
   py_float (ds @ CHR ''.'' # fs) =
     Some (real (digits_val ds) + real (digits_val fs) / 10 ^ length fs)"
  by (simp add: py_float_def takeWhile_digits_dot dropWhile_digits_dot)

text \<open>
  In a text without commas a match is a run of digits, with or without a fraction, and
  \<^verbatim>\<open>float\<close> reads it.
\<close>

lemma match_number_float:
  assumes free: "CHR '','' \<notin> set s" and m: "match_number s = Some (m, rest)"
  shows "\<exists>x. py_float m = Some x"
proof -
  let ?ds = "takeWhile is_digit s" and ?r = "dropWhile is_digit s"
  from m have ne: "?ds \<noteq> []"
    by (auto simp: match_number_def split: if_splits)
  have digs: "list_all is_digit ?ds"
    by (auto simp: list_all_iff dest: set_takeWhileD)
  from free have "CHR '','' \<notin> set ?r"
    by (auto dest: set_dropWhileD)
  then have g: "comma_groups ?r = ([], ?r)"
    by (rule comma_groups_comma_free)
  obtain f r3 where f: "fraction ?r = (f, r3)"
    by (cases "fraction ?r")
  from m ne g f have meq: "m = ?ds @ f"
    by (simp add: match_number_def)
  show ?thesis
  proof (cases "f = []")
    case True
    with meq ne digs show ?thesis
      by (simp add: py_float_digits)
  next
    case False
    with f obtain t where "f = CHR ''.'' # takeWhile is_digit t" and "takeWhile is_digit t \<noteq> []"
      by (auto simp: fraction_def split: list.splits if_splits)
    moreover have "list_all is_digit (takeWhile is_digit t)"
      by (auto simp: list_all_iff dest: set_takeWhileD)
    ultimately show ?thesis
      using meq ne digs by (simp add: py_float_decimal)
  qed
qed

lemma findall_float:
  "CHR '','' \<notin> set s \<Longrightarrow> m \<in> set (findall s) \<Longrightarrow> \<exists>x. py_float m = Some x"
proof (induction s rule: findall.induct)
  case 1
  then show ?case by simp
next
  case (2 c t)
  show ?case
  proof (cases "match_number (c # t)")
    case None
    with 2 show ?thesis by simp
  next
    case (Some p)
    obtain m' rest where p: "p = (m', rest)"
      by (cases p)
    with Some have mn: "match_number (c # t) = Some (m', rest)"
      by simp
    then have "c # t = m' @ rest"
      using match_number_append by blast
    then have "set rest \<subseteq> set (c # t)"
      by (metis set_append Un_upper2)
    with "2.prems"(1) have free: "CHR '','' \<notin> set rest"
      by blast
    from "2.prems"(2) mn have "m = m' \<or> m \<in> set (findall rest)"
      by simp
    then show ?thesis
    proof
      assume "m = m'"
      with mn "2.prems"(1) show ?thesis
        using match_number_float by blast
    next
      assume "m \<in> set (findall rest)"
      with "2.IH"(2) [OF Some p [symmetric] free] show ?thesis
        by simp
    qed
  qed
qed

lemma last_match_float:
  assumes "findall (replace_commas text) \<noteq> []"
  shows "\<exists>x. py_float (last (findall (replace_commas text))) = Some x"
proof -
  from assms have "last (findall (replace_commas text)) \<in> set (findall (replace_commas text))"
    by simp
  moreover have "CHR '','' \<notin> set (replace_commas text)"
    by (simp add: replace_commas_def)
  ultimately show ?thesis
    using findall_float by blast
qed

lemma extract_amount_total: "\<exists>x. extract_amount text = Inr x"
proof (cases "findall (replace_commas text) = []")
  case True
  then show ?thesis
    by (simp add: extract_amount_def)
next
  case False
  then obtain x where "py_float (last (findall (replace_commas text))) = Some x"
    using last_match_float by blast
  with False show ?thesis
    by (simp add: extract_amount_def)
qed

lemma extract_amount_no_digits: "\<not> list_ex is_digit text \<Longrightarrow> extract_amount text = Inr 0"
  by (simp add: extract_amount_def findall_no_digits replace_commas_no_digits)

text \<open>
  C6. \<^verbatim>\<open>_extract_amount\<close> strips the commas, finds the matches of the pattern, and
  returns the last one read as a float, or 0.0 when there is no match; it never raises.
  A text with no digit gives 0.0, \<^verbatim>\<open>"dinner Saturday 2500"\<close> gives 2500.0 and
  \<^verbatim>\<open>"balance is 18,000.50"\<close> gives 18000.50.
\<close>

theorem extract_amount_last_match:
  "(findall (replace_commas text) = [] \<longrightarrow> extract_amount text = Inr 0) \<and>
   (findall (replace_commas text) \<noteq> [] \<longrightarrow>
      (\<exists>x. py_float (last (findall (replace_commas text))) = Some x \<and>
           extract_amount text = Inr x)) \<and>
   (\<not> list_ex is_digit text \<longrightarrow> extract_amount text = Inr 0) \<and>
   extract_amount ''dinner Saturday 2500'' = Inr 2500 \<and>
   extract_amount ''balance is 18,000.50'' = Inr 18000.50"
proof (intro conjI impI)
  assume "findall (replace_commas text) = []"
  then show "extract_amount text = Inr 0"
    by (simp add: extract_amount_def)
next
  assume ne: "findall (replace_commas text) \<noteq> []"
  then obtain x where "py_float (last (findall (replace_commas text))) = Some x"
    using last_match_float by blast
  with ne show "\<exists>x. py_float (last (findall (replace_commas text))) = Some x \<and>
      extract_amount text = Inr x"
    by (simp add: extract_amount_def)
next
  assume "\<not> list_ex is_digit text"
  then show "extract_amount text = Inr 0"
    by (rule extract_amount_no_digits)
next
  show "extract_amount ''dinner Saturday 2500'' = Inr 2500"
    by (simp add: text_eval)
next
  show "extract_amount ''balance is 18,000.50'' = Inr 18000.50"
    by (simp add: text_eval)
qed

theorem extract_amount_last_match_witness:
  "findall (replace_commas ''rent 1,200 then 950.75'') \<noteq> [] \<and>
   last (findall (replace_commas ''rent 1,200 then 950.75'')) = ''950.75'' \<and>
   extract_amount ''rent 1,200 then 950.75'' = Inr 950.75 \<and>
   \<not> list_ex is_digit ''rent is due'' \<and>
   findall (replace_commas ''rent is due'') = [] \<and>
   extract_amount ''rent is due'' = Inr 0"
proof -
  have m: "findall (replace_commas ''rent 1,200 then 950.75'') = [''1200'', ''950.75'']"
    by (simp add: text_eval)
  have f: "py_float ''950.75'' = Some 950.75"
    by (simp add: text_eval)
  have n: "\<not> list_ex is_digit ''rent is due''"
    by (simp add: is_digit_def)
  have e: "findall (replace_commas ''rent is due'') = []"
    by (simp add: text_eval)
  have "findall (replace_commas ''rent 1,200 then 950.75'') \<noteq> []"
    unfolding m by simp
  with extract_amount_last_match [of "''rent 1,200 then 950.75''"]
  obtain x where "py_float (last (findall (replace_commas ''rent 1,200 then 950.75''))) = Some x"
    and x: "extract_amount ''rent 1,200 then 950.75'' = Inr x"
    by blast
  then have "py_float ''950.75'' = Some x"
    unfolding m by simp
  with f x have "extract_amount ''rent 1,200 then 950.75'' = Inr 950.75"
    by simp
  moreover from extract_amount_last_match [of "''rent is due''"] n
  have "extract_amount ''rent is due'' = Inr 0"
    by blast
  ultimately show ?thesis
    using m n e by simp
qed

lemma starts_with_iff: "starts_with p s \<longleftrightarrow> (\<exists>post. s = p @ post)"
  by (induction p s rule: starts_with.induct) auto

lemma py_in_iff: "py_in sub s \<longleftrightarrow> (\<exists>pre post. s = pre @ sub @ post)"
proof (induction s)
  case Nil
  then show ?case by auto
next
  case (Cons c cs)
  show ?case
  proof
    assume "py_in sub (c # cs)"
    then consider "starts_with sub (c # cs)" | "py_in sub cs"
      by auto
    then show "\<exists>pre post. c # cs = pre @ sub @ post"
    proof cases
      case 1
      then obtain post where "c # cs = sub @ post"
        using starts_with_iff by blast
      then have "c # cs = [] @ sub @ post"
        by simp
      then show ?thesis by blast
    next
      case 2
      with Cons obtain pre post where "cs = pre @ sub @ post"
        by blast
      then have "c # cs = (c # pre) @ sub @ post"
        by simp
      then show ?thesis by blast
    qed
  next
    assume "\<exists>pre post. c # cs = pre @ sub @ post"
    then obtain pre post where eq: "c # cs = pre @ sub @ post"
      by blast
    show "py_in sub (c # cs)"
    proof (cases pre)
      case Nil
      with eq have "starts_with sub (c # cs)"
        using starts_with_iff by auto
      then show ?thesis by simp
    next
      case (Cons x pre')
      with eq have "cs = pre' @ sub @ post"
        by simp
      with Cons.IH have "py_in sub cs"
        by blast
      then show ?thesis by simp
    qed
  qed
qed

lemma fallback_classification_cases:
  "\<exists>c a. fallback_classification text = Inr c \<and> extract_amount text = Inr a \<and>
     (if py_in ''balance'' (lower text) \<or> py_in ''have'' (lower text) \<or>
         py_in ''now'' (lower text) \<or> py_in ''current'' (lower text)
      then ci_input_type c = BALANCE_UPDATE \<and> ci_confidence c = 0.7 \<and>
           ci_extracted_data c = [''balance'' \<mapsto> JNum a]
      else if py_in ''can i'' (lower text) \<or> py_in ''should i'' (lower text) \<or>
              py_in ''afford'' (lower text) \<or> py_in ''?'' (lower text) \<or>
              py_in ''how much'' (lower text)
      then ci_input_type c = QUESTION \<and> ci_confidence c = 0.7
      else ci_input_type c = FINANCIAL_COMMITMENT \<and> ci_confidence c = 0.6 \<and>
           ci_extracted_data c =
             [''description'' \<mapsto> JStr text, ''amount'' \<mapsto> JNum a, ''date'' \<mapsto> JNull])"
proof -
  let ?B = "py_in ''balance'' (lower text) \<or> py_in ''have'' (lower text) \<or>
            py_in ''now'' (lower text) \<or> py_in ''current'' (lower text)"
  let ?Q = "py_in ''can i'' (lower text) \<or> py_in ''should i'' (lower text) \<or>
            py_in ''afford'' (lower text) \<or> py_in ''?'' (lower text) \<or>
            py_in ''how much'' (lower text)"
  obtain a where a: "extract_amount text = Inr a"
    using extract_amount_total by blast
  have kb: "list_ex (\<lambda>word. py_in word (lower text)) balance_keywords = ?B"
    by (simp add: balance_keywords_def)
  have kq: "list_ex (\<lambda>word. py_in word (lower text)) question_keywords = ?Q"
    by (simp add: question_keywords_def)
  consider (balance) "?B" | (question) "\<not> ?B" "?Q" | (commitment) "\<not> ?B" "\<not> ?Q"
    by blast
  then show ?thesis
  proof cases
    case balance
    then have "fallback_classification text =
        Inr \<lparr>ci_input_type = BALANCE_UPDATE, ci_confidence = 0.7,
             ci_extracted_data = [''balance'' \<mapsto> JNum a]\<rparr>"
      unfolding fallback_classification_def Let_def kb kq a by simp
    with balance a show ?thesis
      by (simp only: if_True) simp
  next
    case question
    then have "fallback_classification text =
        Inr \<lparr>ci_input_type = QUESTION, ci_confidence = 0.7,
             ci_extracted_data = [''question'' \<mapsto> JStr text, ''target_amount'' \<mapsto> JNum a]\<rparr>"
      unfolding fallback_classification_def Let_def kb kq a by simp
    with question a show ?thesis
      by (simp only: if_True if_False) simp
  next
    case commitment
    then have "fallback_classification text =
        Inr \<lparr>ci_input_type = FINANCIAL_COMMITMENT, ci_confidence = 0.6,
             ci_extracted_data =
               [''description'' \<mapsto> JStr text, ''amount'' \<mapsto> JNum a, ''date'' \<mapsto> JNull]\<rparr>"
      unfolding fallback_classification_def Let_def kb kq a by simp
    with commitment a show ?thesis
      by (simp only: if_False) simp
  qed
qed

text \<open>
  C3. The fallback classifier never raises and returns one of the three kinds: a
  BALANCE_UPDATE with confidence 0.7 when the lowercased text contains "balance", "have",
  "now" or "current"; else a QUESTION with confidence 0.7 when it contains "can i",
  "should i", "afford", "?" or "how much"; else a FINANCIAL_COMMITMENT with confidence
  0.6, the whole text as description and the extracted amount, 0 when there is none, as
  amount. To contain a keyword is to have it as a substring, whatever comes before and
  after, and the lowercasing turns upper-case letters into lower-case ones and leaves
  the rest. Texts with each keyword, some in upper case and one inside a longer word,
  a text with keywords of both lists, and texts with none are classified as stated.
\<close>

theorem fallback_classification_total:
  "(\<exists>c a. fallback_classification text = Inr c \<and> extract_amount text = Inr a \<and>
     (if py_in ''balance'' (lower text) \<or> py_in ''have'' (lower text) \<or>
         py_in ''now'' (lower text) \<or> py_in ''current'' (lower text)
      then ci_input_type c = BALANCE_UPDATE \<and> ci_confidence c = 0.7 \<and>
           ci_extracted_data c = [''balance'' \<mapsto> JNum a]
      else if py_in ''can i'' (lower text) \<or> py_in ''should i'' (lower text) \<or>
              py_in ''afford'' (lower text) \<or> py_in ''?'' (lower text) \<or>
              py_in ''how much'' (lower text)
      then ci_input_type c = QUESTION \<and> ci_confidence c = 0.7
      else ci_input_type c = FINANCIAL_COMMITMENT \<and> ci_confidence c = 0.6 \<and>
           ci_extracted_data c =
             [''description'' \<mapsto> JStr text, ''amount'' \<mapsto> JNum a, ''date'' \<mapsto> JNull])) \<and>
   (py_in sub s \<longleftrightarrow> (\<exists>pre post. s = pre @ sub @ post)) \<and>
   lower ''The Quick BROWN fox, 42 JUMPS over a lazy dog?'' =
     ''the quick brown fox, 42 jumps over a lazy dog?'' \<and>
   fallback_classification ''My BALANCE is 18,000.50'' =
     Inr \<lparr>ci_input_type = BALANCE_UPDATE, ci_confidence = 0.7,
          ci_extracted_data = [''balance'' \<mapsto> JNum 18000.50]\<rparr> \<and>
   fallback_classification ''I HAVE 300'' =
     Inr \<lparr>ci_input_type = BALANCE_UPDATE, ci_confidence = 0.7,
          ci_extracted_data = [''balance'' \<mapsto> JNum 300]\<rparr> \<and>
   fallback_classification ''Snow tires 400'' =
     Inr \<lparr>ci_input_type = BALANCE_UPDATE, ci_confidence = 0.7,
          ci_extracted_data = [''balance'' \<mapsto> JNum 400]\<rparr> \<and>
   fallback_classification ''Current: 75.5'' =
     Inr \<lparr>ci_input_type = BALANCE_UPDATE, ci_confidence = 0.7,
          ci_extracted_data = [''balance'' \<mapsto> JNum 75.5]\<rparr> \<and>
   fallback_classification ''Can I afford it now?'' =
     Inr \<lparr>ci_input_type = BALANCE_UPDATE, ci_confidence = 0.7,
          ci_extracted_data = [''balance'' \<mapsto> JNum 0]\<rparr> \<and>
   fallback_classification ''Can I get it'' =
     Inr \<lparr>ci_input_type = QUESTION, ci_confidence = 0.7,
          ci_extracted_data = [''question'' \<mapsto> JStr ''Can I get it'', ''target_amount'' \<mapsto> JNum 0]\<rparr> \<and>
   fallback_classification ''SHOULD I pay 40'' =
     Inr \<lparr>ci_input_type = QUESTION, ci_confidence = 0.7,
          ci_extracted_data = [''question'' \<mapsto> JStr ''SHOULD I pay 40'', ''target_amount'' \<mapsto> JNum 40]\<rparr> \<and>
   fallback_classification ''Afford 99'' =
     Inr \<lparr>ci_input_type = QUESTION, ci_confidence = 0.7,
          ci_extracted_data = [''question'' \<mapsto> JStr ''Afford 99'', ''target_amount'' \<mapsto> JNum 99]\<rparr> \<and>
   fallback_classification ''is 10 ok?'' =
     Inr \<lparr>ci_input_type = QUESTION, ci_confidence = 0.7,
          ci_extracted_data = [''question'' \<mapsto> JStr ''is 10 ok?'', ''target_amount'' \<mapsto> JNum 10]\<rparr> \<and>
   fallback_classification ''How Much for 3'' =
     Inr \<lparr>ci_input_type = QUESTION, ci_confidence = 0.7,
          ci_extracted_data = [''question'' \<mapsto> JStr ''How Much for 3'', ''target_amount'' \<mapsto> JNum 3]\<rparr> \<and>
   fallback_classification ''dinner Saturday 2500'' =
     Inr \<lparr>ci_input_type = FINANCIAL_COMMITMENT, ci_confidence = 0.6,
          ci_extracted_data =
            [''description'' \<mapsto> JStr ''dinner Saturday 2500'', ''amount'' \<mapsto> JNum 2500, ''date'' \<mapsto> JNull]\<rparr> \<and>
   fallback_classification ''Pay rent'' =
     Inr \<lparr>ci_input_type = FINANCIAL_COMMITMENT, ci_confidence = 0.6,
          ci_extracted_data =
            [''description'' \<mapsto> JStr ''Pay rent'', ''amount'' \<mapsto> JNum 0, ''date'' \<mapsto> JNull]\<rparr>"
proof (intro conjI)
  show "\<exists>c a. fallback_classification text = Inr c \<and> extract_amount text = Inr a \<and>
     (if py_in ''balance'' (lower text) \<or> py_in ''have'' (lower text) \<or>
         py_in ''now'' (lower text) \<or> py_in ''current'' (lower text)
      then ci_input_type c = BALANCE_UPDATE \<and> ci_confidence c = 0.7 \<and>
           ci_extracted_data c = [''balance'' \<mapsto> JNum a]
      else if py_in ''can i'' (lower text) \<or> py_in ''should i'' (lower text) \<or>
              py_in ''afford'' (lower text) \<or> py_in ''?'' (lower text) \<or>
              py_in ''how much'' (lower text)
      then ci_input_type c = QUESTION \<and> ci_confidence c = 0.7
      else ci_input_type c = FINANCIAL_COMMITMENT \<and> ci_confidence c = 0.6 \<and>
           ci_extracted_data c =
             [''description'' \<mapsto> JStr text, ''amount'' \<mapsto> JNum a, ''date'' \<mapsto> JNull])"
    by (rule fallback_classification_cases)
next
  show "py_in sub s \<longleftrightarrow> (\<exists>pre post. s = pre @ sub @ post)"
    by (rule py_in_iff)
qed (simp_all add: text_eval)

theorem fallback_classification_total_witness:
  "py_in ''balance'' (lower ''My BALANCE is 18,000.50'') \<and>
   (\<exists>c. fallback_classification ''My BALANCE is 18,000.50'' = Inr c \<and>
        ci_input_type c = BALANCE_UPDATE \<and> ci_confidence c = 0.7 \<and>
        ci_extracted_data c = [''balance'' \<mapsto> JNum 18000.50]) \<and>
   py_in ''now'' (lower ''Can I afford it now?'') \<and>
   py_in ''can i'' (lower ''Can I afford it now?'') \<and>
   (\<exists>c. fallback_classification ''Can I afford it now?'' = Inr c \<and>
        ci_input_type c = BALANCE_UPDATE \<and> ci_confidence c = 0.7 \<and>
        ci_extracted_data c = [''balance'' \<mapsto> JNum 0]) \<and>
   \<not> py_in ''balance'' (lower ''SHOULD I pay 40'') \<and>
   \<not> py_in ''have'' (lower ''SHOULD I pay 40'') \<and>
   \<not> py_in ''now'' (lower ''SHOULD I pay 40'') \<and>
   \<not> py_in ''current'' (lower ''SHOULD I pay 40'') \<and>
   py_in ''should i'' (lower ''SHOULD I pay 40'') \<and>
   (\<exists>c. fallback_classification ''SHOULD I pay 40'' = Inr c \<and>
        ci_input_type c = QUESTION \<and> ci_confidence c = 0.7) \<and>
   \<not> py_in ''balance'' (lower ''Dinner Saturday 2500'') \<and>
   \<not> py_in ''?'' (lower ''Dinner Saturday 2500'') \<and>
   (\<exists>c. fallback_classification ''Dinner Saturday 2500'' = Inr c \<and>
        ci_input_type c = FINANCIAL_COMMITMENT \<and> ci_confidence c = 0.6 \<and>
        ci_extracted_data c =
          [''description'' \<mapsto> JStr ''Dinner Saturday 2500'', ''amount'' \<mapsto> JNum 2500,
           ''date'' \<mapsto> JNull])"
proof -
  have a1: "extract_amount ''My BALANCE is 18,000.50'' = Inr 18000.50"
    and a2: "extract_amount ''Can I afford it now?'' = Inr 0"
    and a3: "extract_amount ''SHOULD I pay 40'' = Inr 40"
    and a4: "extract_amount ''Dinner Saturday 2500'' = Inr 2500"
    by (simp_all add: text_eval)
  have l1: "lower ''My BALANCE is 18,000.50'' = ''my balance is 18,000.50''"
    and l2: "lower ''Can I afford it now?'' = ''can i afford it now?''"
    and l3: "lower ''SHOULD I pay 40'' = ''should i pay 40''"
    and l4: "lower ''Dinner Saturday 2500'' = ''dinner saturday 2500''"
    by (simp_all add: lower_def lower_char_def)
  from fallback_classification_total [of "''My BALANCE is 18,000.50''", THEN conjunct1]
  obtain c a where "fallback_classification ''My BALANCE is 18,000.50'' = Inr c"
    and "Inr 18000.50 = (Inr a :: py_error + real)"
    and "ci_input_type c = BALANCE_UPDATE \<and> ci_confidence c = 0.7 \<and>
         ci_extracted_data c = [''balance'' \<mapsto> JNum a]"
    unfolding a1 l1 by auto
  then have c1: "\<exists>c. fallback_classification ''My BALANCE is 18,000.50'' = Inr c \<and>
        ci_input_type c = BALANCE_UPDATE \<and> ci_confidence c = 0.7 \<and>
        ci_extracted_data c = [''balance'' \<mapsto> JNum 18000.50]"
    by (metis sum.inject(2))
  from fallback_classification_total [of "''Can I afford it now?''", THEN conjunct1]
  have c2: "\<exists>c. fallback_classification ''Can I afford it now?'' = Inr c \<and>
        ci_input_type c = BALANCE_UPDATE \<and> ci_confidence c = 0.7 \<and>
        ci_extracted_data c = [''balance'' \<mapsto> JNum 0]"
    unfolding a2 l2 by simp
  from fallback_classification_total [of "''SHOULD I pay 40''", THEN conjunct1]
  have c3: "\<exists>c. fallback_classification ''SHOULD I pay 40'' = Inr c \<and>
        ci_input_type c = QUESTION \<and> ci_confidence c = 0.7"
    unfolding a3 l3 by simp
  from fallback_classification_total [of "''Dinner Saturday 2500''", THEN conjunct1]
  have c4: "\<exists>c. fallback_classification ''Dinner Saturday 2500'' = Inr c \<and>
        ci_input_type c = FINANCIAL_COMMITMENT \<and> ci_confidence c = 0.6 \<and>
        ci_extracted_data c =
          [''description'' \<mapsto> JStr ''Dinner Saturday 2500'', ''amount'' \<mapsto> JNum 2500,
           ''date'' \<mapsto> JNull]"
    unfolding a4 l4 by simp
  from c1 c2 c3 c4 show ?thesis
    unfolding l1 l2 l3 l4 by simp
qed

section \<open>Properties of the Ledger Store and of the handlers\<close>

subsection \<open>What a write does to the balances and to the balance events\<close>

lemma balance_history_add:
  "balance_history (apply_op d (AddRecord r)) u =
     balance_history d u @
     (if user_id r = u \<and> input_type r = BALANCE_UPDATE then [balance r] else [])"
  by (simp add: balance_history_def)

lemma balance_history_put:
  "balance_history (apply_op d (PutBalance uid ub)) u = balance_history d u"
  by (simp add: balance_history_def)

lemma balance_events_vector:
  "map balance
     (filter (\<lambda>r. user_id r = u \<and> input_type r = BALANCE_UPDATE)
        (map (\<lambda>r. if rec_id r = i then r\<lparr>vector_id := Some v\<rparr> else r) rs)) =
   map balance (filter (\<lambda>r. user_id r = u \<and> input_type r = BALANCE_UPDATE) rs)"
  by (induction rs) auto

lemma balance_history_vector:
  "balance_history (apply_op d (SetVectorId i v)) u = balance_history d u"
  by (simp add: balance_history_def balance_events_vector)

lemma user_balances_add: "user_balances (apply_op d (AddRecord r)) = user_balances d"
  by simp

lemma user_balances_vector: "user_balances (apply_op d (SetVectorId i v)) = user_balances d"
  by simp

lemma user_balances_put:
  "user_balances (apply_op d (PutBalance uid ub)) = (user_balances d)(uid \<mapsto> ub)"
  by simp

lemmas write_effects =
  balance_history_add balance_history_put balance_history_vector
  user_balances_add user_balances_vector user_balances_put

lemma handle_commitment_balances:
  "user_balances (snd (handle_commitment e d uid raw dat)) = user_balances d \<and>
   balance_history (snd (handle_commitment e d uid raw dat)) u = balance_history d u"
  by (simp add: handle_commitment_def db_commit_def Let_def write_effects
           del: apply_op.simps split: sum.splits)

lemma handle_question_balances:
  "user_balances (snd (handle_question e d uid raw dat)) = user_balances d \<and>
   balance_history (snd (handle_question e d uid raw dat)) u = balance_history d u"
  by (simp add: handle_question_def db_commit_def Let_def write_effects
           del: apply_op.simps split: sum.splits)

lemma row_overwrite:
  "(ub :: user_balance)\<lparr>current_balance := b, last_updated := t\<rparr> =
     \<lparr>current_balance = b, last_updated = t\<rparr>"
  by (cases ub) simp

lemma balance_written_history:
  "balance_history (balance_written e d uid raw b) u =
     balance_history d u @ (if u = uid then [Some b] else [])"
  by (auto simp: balance_written_def balance_history_def)

lemma handle_balance_update_invalid:
  "BalanceData e dat = Inl err \<Longrightarrow> handle_balance_update e d uid raw dat = (Inl err, d)"
  by (simp add: handle_balance_update_def)

lemma handle_balance_update_failed:
  "BalanceData e dat = Inr bd \<Longrightarrow> \<not> commit_ok e \<Longrightarrow>
   handle_balance_update e d uid raw dat = (Inl StorageError, d)"
  by (simp add: handle_balance_update_def db_commit_def)

lemma handle_balance_update_committed:
  assumes "BalanceData e dat = Inr bd" and "commit_ok e"
  shows "handle_balance_update e d uid raw dat =
     (Inr \<lparr>success = True,
           message = ''Balance updated to $'' @ fmt_2f (bd_balance bd),
           data = Some [''id'' \<mapsto> JNum (real (next_id d)), ''balance'' \<mapsto> JNum (bd_balance bd)],
           advice = None\<rparr>,
      balance_written e d uid raw (bd_balance bd))"
  using assms
  by (cases "user_balances d uid")
     (simp_all add: handle_balance_update_def db_commit_def balance_written_def row_overwrite)

lemma handle_balance_update_cases:
  "snd (handle_balance_update e d uid raw dat) = d \<or>
   (\<exists>bd. BalanceData e dat = Inr bd \<and>
      snd (handle_balance_update e d uid raw dat) = balance_written e d uid raw (bd_balance bd))"
proof (cases "BalanceData e dat")
  case (Inl err)
  then show ?thesis
    by (simp add: handle_balance_update_invalid)
next
  case (Inr bd)
  then show ?thesis
    by (cases "commit_ok e")
       (simp_all add: handle_balance_update_committed handle_balance_update_failed)
qed

subsection \<open>The balance row follows the balance events\<close>

lemma balance_consistent_empty: "balance_consistent empty_db"
  by (simp add: balance_consistent_def row_matches_def empty_db_def balance_history_def)

lemma row_matches_same:
  "row_matches d u \<Longrightarrow> user_balances d' = user_balances d \<Longrightarrow>
   balance_history d' u = balance_history d u \<Longrightarrow> row_matches d' u"
  by (simp add: row_matches_def cong: option.case_cong)

lemma balance_consistent_same:
  assumes "balance_consistent d" and "user_balances d' = user_balances d"
    and "\<And>u. balance_history d' u = balance_history d u"
  shows "balance_consistent d'"
  using assms by (auto simp: balance_consistent_def intro: row_matches_same)

lemma row_matches_written:
  assumes "row_matches d u"
  shows "row_matches (balance_written e d uid raw b) u"
proof (cases "u = uid")
  case True
  have "user_balances (balance_written e d uid raw b) uid =
      Some \<lparr>current_balance = b, last_updated = utcnow e\<rparr>"
    by (simp add: balance_written_def)
  with True show ?thesis
    by (simp add: row_matches_def balance_written_history cong: option.case_cong)
next
  case False
  then have "user_balances (balance_written e d uid raw b) u = user_balances d u"
    by (simp add: balance_written_def)
  moreover from False
  have "balance_history (balance_written e d uid raw b) u = balance_history d u"
    by (simp add: balance_written_history)
  ultimately show ?thesis
    using assms by (simp add: row_matches_def cong: option.case_cong)
qed

lemma balance_consistent_written:
  "balance_consistent d \<Longrightarrow> balance_consistent (balance_written e d uid raw b)"
  by (simp add: balance_consistent_def row_matches_written)

lemma process_input_consistent:
  assumes "balance_consistent d"
  shows "balance_consistent (snd (process_input e d uid text))"
proof (cases "classify_and_extract e text")
  case (Inl err)
  with assms show ?thesis
    by (simp add: process_input_def)
next
  case (Inr c)
  show ?thesis
  proof (cases "ci_input_type c")
    case FINANCIAL_COMMITMENT
    with Inr have "snd (process_input e d uid text) =
        snd (handle_commitment e d uid text (ci_extracted_data c))"
      by (simp add: process_input_def)
    with assms show ?thesis
      by (simp add: balance_consistent_same handle_commitment_balances)
  next
    case BALANCE_UPDATE
    with Inr have "snd (process_input e d uid text) =
        snd (handle_balance_update e d uid text (ci_extracted_data c))"
      by (simp add: process_input_def)
    with assms handle_balance_update_cases [of e d uid "text" "ci_extracted_data c"]
    show ?thesis
      by (auto simp: balance_consistent_written)
  next
    case QUESTION
    with Inr have "snd (process_input e d uid text) =
        snd (handle_question e d uid text (ci_extracted_data c))"
      by (simp add: process_input_def)
    with assms show ?thesis
      by (simp add: balance_consistent_same handle_question_balances)
  qed
qed

lemma run_consistent: "balance_consistent d \<Longrightarrow> balance_consistent (run d reqs)"
  by (induction d reqs rule: run.induct) (simp_all add: process_input_consistent)

lemma consistent_current_balance:
  assumes "balance_consistent d"
  shows "(balance_history d u = [] \<longrightarrow> current_balance_of d u = 0) \<and>
         (balance_history d u \<noteq> [] \<longrightarrow>
            last (balance_history d u) = Some (current_balance_of d u))"
proof -
  from assms have "row_matches d u"
    by (simp add: balance_consistent_def)
  then show ?thesis
    by (cases "user_balances d u") (simp_all add: row_matches_def current_balance_of_def)
qed

subsection \<open>The claims on the Balance Handler\<close>

lemma fallback_balance_5000:
  "fallback_classification ''balance is 5000'' =
     Inr \<lparr>ci_input_type = BALANCE_UPDATE, ci_confidence = 0.7,
          ci_extracted_data = [''balance'' \<mapsto> JNum 5000]\<rparr>"
  by (simp add: text_eval)

lemma fallback_balance_3000:
  "fallback_classification ''balance is 3000'' =
     Inr \<lparr>ci_input_type = BALANCE_UPDATE, ci_confidence = 0.7,
          ci_extracted_data = [''balance'' \<mapsto> JNum 3000]\<rparr>"
  by (simp add: text_eval)

lemma BalanceData_number:
  "0 \<le> b \<Longrightarrow> BalanceData e [''balance'' \<mapsto> JNum b] = Inr \<lparr>bd_balance = b\<rparr>"
  by (simp add: BalanceData_def validate_float_def)

lemma offline_balance_5000:
  "snd (process_input offline d uid ''balance is 5000'') =
     balance_written offline d uid ''balance is 5000'' 5000"
proof -
  have "BalanceData offline [''balance'' \<mapsto> JNum 5000] = Inr \<lparr>bd_balance = 5000\<rparr>"
    by (simp add: BalanceData_number)
  moreover have "commit_ok offline"
    by (simp add: offline_def)
  ultimately have "snd (handle_balance_update offline d uid ''balance is 5000''
      [''balance'' \<mapsto> JNum 5000]) = balance_written offline d uid ''balance is 5000'' 5000"
    by (simp add: handle_balance_update_committed)
  moreover have "llm_classification offline = None"
    by (simp add: offline_def)
  ultimately show ?thesis
    by (simp add: process_input_def classify_and_extract_def fallback_balance_5000)
qed

lemma offline_balance_3000:
  "snd (process_input offline d uid ''balance is 3000'') =
     balance_written offline d uid ''balance is 3000'' 3000"
proof -
  have "BalanceData offline [''balance'' \<mapsto> JNum 3000] = Inr \<lparr>bd_balance = 3000\<rparr>"
    by (simp add: BalanceData_number)
  moreover have "commit_ok offline"
    by (simp add: offline_def)
  ultimately have "snd (handle_balance_update offline d uid ''balance is 3000''
      [''balance'' \<mapsto> JNum 3000]) = balance_written offline d uid ''balance is 3000'' 3000"
    by (simp add: handle_balance_update_committed)
  moreover have "llm_classification offline = None"
    by (simp add: offline_def)
  ultimately show ?thesis
    by (simp add: process_input_def classify_and_extract_def fallback_balance_3000)
qed

lemma run_5000_3000:
  "run empty_db [(offline, uid, ''balance is 5000''), (offline, uid, ''balance is 3000'')] =
     balance_written offline (balance_written offline empty_db uid ''balance is 5000'' 5000)
       uid ''balance is 3000'' 3000"
  by (simp add: offline_balance_5000 offline_balance_3000)

text \<open>
  C1. After any sequence of requests on the empty store, whatever each request meets, the
  balance that the Question Handler reads for a user is the amount of that user's last
  BALANCE_UPDATE event, and 0 when the user has none. After "balance is 5000" and then
  "balance is 3000" for one user the balance is 3000 and the history of the user holds
  two events, both BALANCE_UPDATE.
\<close>

theorem current_balance_latest_update:
  "(balance_history (run empty_db reqs) u = [] \<longrightarrow> current_balance_of (run empty_db reqs) u = 0) \<and>
   (balance_history (run empty_db reqs) u \<noteq> [] \<longrightarrow>
      last (balance_history (run empty_db reqs) u) =
        Some (current_balance_of (run empty_db reqs) u)) \<and>
   current_balance_of
     (run empty_db [(offline, ''u1'', ''balance is 5000''), (offline, ''u1'', ''balance is 3000'')])
     ''u1'' = 3000 \<and>
   map input_type
     (get_user_history
        (run empty_db [(offline, ''u1'', ''balance is 5000''), (offline, ''u1'', ''balance is 3000'')])
        ''u1'' 50) = [BALANCE_UPDATE, BALANCE_UPDATE] \<and>
   balance_history
     (run empty_db [(offline, ''u1'', ''balance is 5000''), (offline, ''u1'', ''balance is 3000'')])
     ''u1'' = [Some 5000, Some 3000]"
proof -
  have "balance_consistent (run empty_db reqs)"
    by (simp add: run_consistent balance_consistent_empty)
  then have general:
    "(balance_history (run empty_db reqs) u = [] \<longrightarrow> current_balance_of (run empty_db reqs) u = 0) \<and>
     (balance_history (run empty_db reqs) u \<noteq> [] \<longrightarrow>
        last (balance_history (run empty_db reqs) u) =
          Some (current_balance_of (run empty_db reqs) u))"
    by (rule consistent_current_balance)
  have bal: "current_balance_of
     (run empty_db [(offline, ''u1'', ''balance is 5000''), (offline, ''u1'', ''balance is 3000'')])
     ''u1'' = 3000"
    unfolding run_5000_3000 by (simp add: current_balance_of_def balance_written_def)
  have hist: "map input_type
     (get_user_history
        (run empty_db [(offline, ''u1'', ''balance is 5000''), (offline, ''u1'', ''balance is 3000'')])
        ''u1'' 50) = [BALANCE_UPDATE, BALANCE_UPDATE]"
    unfolding run_5000_3000
    by (simp add: get_user_history_def balance_written_def empty_db_def)
  have events: "balance_history
     (run empty_db [(offline, ''u1'', ''balance is 5000''), (offline, ''u1'', ''balance is 3000'')])
     ''u1'' = [Some 5000, Some 3000]"
    unfolding run_5000_3000
    by (simp add: balance_written_history) (simp add: balance_history_def empty_db_def)
  from general bal hist events show ?thesis
    by blast
qed

theorem current_balance_latest_update_witness:
  "balance_history (run empty_db [(offline, ''u1'', ''balance is 5000'')]) ''u2'' = [] \<and>
   current_balance_of (run empty_db [(offline, ''u1'', ''balance is 5000'')]) ''u2'' = 0 \<and>
   balance_history (run empty_db [(offline, ''u1'', ''balance is 5000'')]) ''u1'' \<noteq> [] \<and>
   last (balance_history (run empty_db [(offline, ''u1'', ''balance is 5000'')]) ''u1'') =
     Some (current_balance_of (run empty_db [(offline, ''u1'', ''balance is 5000'')]) ''u1'')"
proof -
  have r: "run empty_db [(offline, ''u1'', ''balance is 5000'')] =
      balance_written offline empty_db ''u1'' ''balance is 5000'' 5000"
    by (simp add: offline_balance_5000)
  have none: "balance_history (run empty_db [(offline, ''u1'', ''balance is 5000'')]) ''u2'' = []"
    unfolding r by (simp add: balance_written_history) (simp add: balance_history_def empty_db_def)
  have some: "balance_history (run empty_db [(offline, ''u1'', ''balance is 5000'')]) ''u1'' \<noteq> []"
    unfolding r by (simp add: balance_written_history)
  from none some
    current_balance_latest_update [of "[(offline, ''u1'', ''balance is 5000'')]" "''u2''"]
    current_balance_latest_update [of "[(offline, ''u1'', ''balance is 5000'')]" "''u1''"]
  show ?thesis
    by blast
qed

text \<open>
  C5. The Balance Handler makes its two writes, the BALANCE_UPDATE event and the balance
  row of the user, durable in one commit: whatever the request meets, the store is left
  either as it was or with both writes. When that commit fails nothing is written and the
  request fails with the storage error; when it goes through the event is appended and
  the row of the user, new or not, holds the new balance and the time of the update.
\<close>

theorem balance_update_atomic:
  "(snd (handle_balance_update e d uid raw dat) = d \<or>
    (\<exists>b. snd (handle_balance_update e d uid raw dat) = balance_written e d uid raw b)) \<and>
   (BalanceData e dat = Inr bd \<and> \<not> commit_ok e \<longrightarrow>
      handle_balance_update e d uid raw dat = (Inl StorageError, d)) \<and>
   (BalanceData e dat = Inr bd \<and> commit_ok e \<longrightarrow>
      (\<exists>res. handle_balance_update e d uid raw dat =
          (Inr res, balance_written e d uid raw (bd_balance bd)) \<and> success res)) \<and>
   financial_records (balance_written e d uid raw b) =
     financial_records d @
       [\<lparr>rec_id = next_id d, user_id = uid, input_type = BALANCE_UPDATE,
         description = None, amount = None, commitment_date = None, balance = Some b,
         question_text = None, raw_input = raw, vector_id = None\<rparr>] \<and>
   user_balances (balance_written e d uid raw b) =
     (user_balances d)(uid \<mapsto> \<lparr>current_balance = b, last_updated = utcnow e\<rparr>)"
proof (intro conjI impI)
  show "snd (handle_balance_update e d uid raw dat) = d \<or>
    (\<exists>b. snd (handle_balance_update e d uid raw dat) = balance_written e d uid raw b)"
    using handle_balance_update_cases [of e d uid raw dat] by blast
next
  assume "BalanceData e dat = Inr bd \<and> \<not> commit_ok e"
  then show "handle_balance_update e d uid raw dat = (Inl StorageError, d)"
    by (simp add: handle_balance_update_failed)
next
  assume "BalanceData e dat = Inr bd \<and> commit_ok e"
  then show "\<exists>res. handle_balance_update e d uid raw dat =
          (Inr res, balance_written e d uid raw (bd_balance bd)) \<and> success res"
    by (simp add: handle_balance_update_committed)
qed (simp_all add: balance_written_def)

theorem balance_update_atomic_witness:
  "BalanceData offline [''balance'' \<mapsto> JNum 5000] = Inr \<lparr>bd_balance = 5000\<rparr> \<and>
   commit_ok offline \<and> \<not> commit_ok (offline\<lparr>commit_ok := False\<rparr>) \<and>
   handle_balance_update (offline\<lparr>commit_ok := False\<rparr>) empty_db ''u1'' ''balance is 5000''
     [''balance'' \<mapsto> JNum 5000] = (Inl StorageError, empty_db) \<and>
   snd (handle_balance_update offline empty_db ''u1'' ''balance is 5000''
     [''balance'' \<mapsto> JNum 5000]) =
     \<lparr>financial_records =
        [\<lparr>rec_id = 1, user_id = ''u1'', input_type = BALANCE_UPDATE,
          description = None, amount = None, commitment_date = None, balance = Some 5000,
          question_text = None, raw_input = ''balance is 5000'', vector_id = None\<rparr>],
      user_balances = [''u1'' \<mapsto> \<lparr>current_balance = 5000, last_updated = 0\<rparr>]\<rparr>"
proof -
  have v: "BalanceData offline [''balance'' \<mapsto> JNum 5000] = Inr \<lparr>bd_balance = 5000\<rparr>"
    and v': "BalanceData (offline\<lparr>commit_ok := False\<rparr>) [''balance'' \<mapsto> JNum 5000] =
      Inr \<lparr>bd_balance = 5000\<rparr>"
    by (simp_all add: BalanceData_number)
  have ok: "commit_ok offline" and ko: "\<not> commit_ok (offline\<lparr>commit_ok := False\<rparr>)"
    by (simp_all add: offline_def)
  have w: "balance_written offline empty_db ''u1'' ''balance is 5000'' 5000 =
     \<lparr>financial_records =
        [\<lparr>rec_id = 1, user_id = ''u1'', input_type = BALANCE_UPDATE,
          description = None, amount = None, commitment_date = None, balance = Some 5000,
          question_text = None, raw_input = ''balance is 5000'', vector_id = None\<rparr>],
      user_balances = [''u1'' \<mapsto> \<lparr>current_balance = 5000, last_updated = 0\<rparr>]\<rparr>"
    by (simp add: balance_written_def empty_db_def next_id_def offline_def)
  from v' ko
    balance_update_atomic [of "offline\<lparr>commit_ok := False\<rparr>" empty_db "''u1''"
      "''balance is 5000''" "[''balance'' \<mapsto> JNum 5000]" "\<lparr>bd_balance = 5000\<rparr>"]
  have failed: "handle_balance_update (offline\<lparr>commit_ok := False\<rparr>) empty_db ''u1''
      ''balance is 5000'' [''balance'' \<mapsto> JNum 5000] = (Inl StorageError, empty_db)"
    by blast
  from v ok
    balance_update_atomic [of offline empty_db "''u1''"
      "''balance is 5000''" "[''balance'' \<mapsto> JNum 5000]" "\<lparr>bd_balance = 5000\<rparr>"]
  obtain res where "handle_balance_update offline empty_db ''u1''
      ''balance is 5000'' [''balance'' \<mapsto> JNum 5000] =
      (Inr res, balance_written offline empty_db ''u1'' ''balance is 5000'' (bd_balance \<lparr>bd_balance = 5000\<rparr>))"
    by blast
  then have "snd (handle_balance_update offline empty_db ''u1''
      ''balance is 5000'' [''balance'' \<mapsto> JNum 5000]) =
      balance_written offline empty_db ''u1'' ''balance is 5000'' 5000"
    by simp
  with v ok ko failed w show ?thesis
    by simp
qed

subsection \<open>The claims on the Commitment Handler\<close>

lemma handle_commitment_invalid:
  "CommitmentData e dat = Inl err \<Longrightarrow> handle_commitment e d uid raw dat = (Inl err, d)"
  by (simp add: handle_commitment_def)

lemma handle_commitment_unmirrored:
  assumes "CommitmentData e dat = Inr c" and "commit_ok e"
    and "\<not> index_store_ok e \<or> \<not> commit2_ok e"
  shows "handle_commitment e d uid raw dat =
     (Inr \<lparr>success = True,
           message = ''Added commitment: '' @ cd_description c @
                     '' ($'' @ fmt_2f (cd_amount c) @ '')'',
           data = Some [''id'' \<mapsto> JNum (real (next_id d)),
                        ''description'' \<mapsto> JStr (cd_description c),
                        ''amount'' \<mapsto> JNum (cd_amount c),
                        ''date'' \<mapsto> json_opt (\<lambda>t. JStr (isoformat e t)) (cd_date c)],
           advice = None\<rparr>,
      d\<lparr>financial_records := financial_records d @ [commitment_record d uid raw c]\<rparr>)"
  using assms
  by (auto simp: handle_commitment_def db_commit_def commitment_record_def Let_def)

lemma history_newest:
  assumes "user_id r = uid" and "0 < limit"
  shows "hd (get_user_history (d\<lparr>financial_records := financial_records d @ [r]\<rparr>) uid limit) = r"
proof -
  from assms(2) obtain k where "limit = Suc k"
    by (cases limit) simp_all
  with assms(1) show ?thesis
    by (simp add: get_user_history_def)
qed

lemma CommitmentData_valid:
  "(\<exists>c. CommitmentData e dat = Inr c) \<longleftrightarrow>
   (\<exists>s a. dat ''description'' = Some (JStr s) \<and>
          Option.bind (dat ''amount'') (validate_float e) = Some a \<and> 0 < a \<and>
          validate_optional (lax_datetime e) (dat ''date'') \<noteq> None)"
  by (auto simp: CommitmentData_def validate_str_def
           split: option.splits jvalue.splits if_splits Option.bind_splits)

lemma CommitmentData_error:
  "CommitmentData e dat = Inl err \<Longrightarrow> err = ValidationError"
  by (auto simp: CommitmentData_def split: option.splits if_splits)

lemma CommitmentData_fields:
  assumes "CommitmentData e dat = Inr c"
  shows "dat ''description'' = Some (JStr (cd_description c)) \<and>
         Option.bind (dat ''amount'') (validate_float e) = Some (cd_amount c) \<and>
         0 < cd_amount c \<and>
         validate_optional (lax_datetime e) (dat ''date'') = Some (cd_date c)"
  using assms
  by (auto simp: CommitmentData_def validate_str_def
           split: option.splits jvalue.splits if_splits Option.bind_splits)

lemma set_vector_keeps:
  "user_id \<circ> (\<lambda>r. if rec_id r = i then r\<lparr>vector_id := Some v\<rparr> else r) = user_id"
  "input_type \<circ> (\<lambda>r. if rec_id r = i then r\<lparr>vector_id := Some v\<rparr> else r) = input_type"
  "description \<circ> (\<lambda>r. if rec_id r = i then r\<lparr>vector_id := Some v\<rparr> else r) = description"
  "amount \<circ> (\<lambda>r. if rec_id r = i then r\<lparr>vector_id := Some v\<rparr> else r) = amount"
  "commitment_date \<circ> (\<lambda>r. if rec_id r = i then r\<lparr>vector_id := Some v\<rparr> else r) =
     commitment_date"
  "raw_input \<circ> (\<lambda>r. if rec_id r = i then r\<lparr>vector_id := Some v\<rparr> else r) = raw_input"
  by (simp_all add: fun_eq_iff)

lemma handle_commitment_failed:
  "CommitmentData e dat = Inr c \<Longrightarrow> \<not> commit_ok e \<Longrightarrow>
   handle_commitment e d uid raw dat = (Inl StorageError, d)"
  by (simp add: handle_commitment_def db_commit_def)

text \<open>
  Whatever the mirroring step does, a valid payload whose first commit goes through
  gives a successful result and adds one event with the fields of the payload.
\<close>

lemma handle_commitment_stored:
  assumes "CommitmentData e dat = Inr c" and "commit_ok e"
  shows "(\<exists>res. fst (handle_commitment e d uid raw dat) = Inr res \<and> success res) \<and>
    map user_id (financial_records (snd (handle_commitment e d uid raw dat))) =
      map user_id (financial_records d) @ [uid] \<and>
    map input_type (financial_records (snd (handle_commitment e d uid raw dat))) =
      map input_type (financial_records d) @ [FINANCIAL_COMMITMENT] \<and>
    map description (financial_records (snd (handle_commitment e d uid raw dat))) =
      map description (financial_records d) @ [Some (cd_description c)] \<and>
    map amount (financial_records (snd (handle_commitment e d uid raw dat))) =
      map amount (financial_records d) @ [Some (cd_amount c)] \<and>
    map commitment_date (financial_records (snd (handle_commitment e d uid raw dat))) =
      map commitment_date (financial_records d) @ [cd_date c] \<and>
    map raw_input (financial_records (snd (handle_commitment e d uid raw dat))) =
      map raw_input (financial_records d) @ [raw]"
  using assms
  by (simp add: handle_commitment_def db_commit_def Let_def set_vector_keeps)

text \<open>
  C4. When the payload is valid and the first commit of the Commitment Handler has gone
  through, a failure of the mirroring step (the write to the Semantic Index raises, or
  the commit of the back-reference does) still gives a result with success = true and the
  id of the new event; the event, of kind FINANCIAL_COMMITMENT, is in the store without
  a vector id and is the first entry of the user's history.
\<close>

theorem commitment_survives_index_failure:
  assumes "CommitmentData e dat = Inr c" and "commit_ok e"
    and "\<not> index_store_ok e \<or> \<not> commit2_ok e"
  shows "\<exists>res p. handle_commitment e d uid raw dat =
           (Inr res, d\<lparr>financial_records := financial_records d @ [commitment_record d uid raw c]\<rparr>) \<and>
         success res \<and> data res = Some p \<and> p ''id'' = Some (JNum (real (next_id d))) \<and>
         rec_id (commitment_record d uid raw c) = next_id d \<and>
         user_id (commitment_record d uid raw c) = uid \<and>
         input_type (commitment_record d uid raw c) = FINANCIAL_COMMITMENT \<and>
         description (commitment_record d uid raw c) = Some (cd_description c) \<and>
         amount (commitment_record d uid raw c) = Some (cd_amount c) \<and>
         vector_id (commitment_record d uid raw c) = None \<and>
         (0 < limit \<longrightarrow>
            hd (get_user_history (snd (handle_commitment e d uid raw dat)) uid limit) =
              commitment_record d uid raw c)"
proof -
  have u: "user_id (commitment_record d uid raw c) = uid"
    by (simp add: commitment_record_def)
  have "0 < limit \<longrightarrow>
      hd (get_user_history
            (d\<lparr>financial_records := financial_records d @ [commitment_record d uid raw c]\<rparr>)
            uid limit) = commitment_record d uid raw c"
    using history_newest [OF u] by blast
  then show ?thesis
    unfolding handle_commitment_unmirrored [OF assms]
    by (simp add: commitment_record_def)
qed

theorem commitment_survives_index_failure_witness:
  "CommitmentData offline [''description'' \<mapsto> JStr ''dinner'', ''amount'' \<mapsto> JNum 2500] =
     Inr \<lparr>cd_description = ''dinner'', cd_amount = 2500, cd_date = None\<rparr> \<and>
   commit_ok offline \<and> \<not> index_store_ok offline \<and> (0::nat) < 50 \<and>
   map rec_id
     (get_user_history
        (snd (handle_commitment offline empty_db ''u1'' ''dinner 2500''
                [''description'' \<mapsto> JStr ''dinner'', ''amount'' \<mapsto> JNum 2500]))
        ''u1'' 50) = [1] \<and>
   map_sum id success
     (fst (handle_commitment offline empty_db ''u1'' ''dinner 2500''
             [''description'' \<mapsto> JStr ''dinner'', ''amount'' \<mapsto> JNum 2500])) = Inr True"
proof -
  let ?dat = "[''description'' \<mapsto> JStr ''dinner'', ''amount'' \<mapsto> JNum 2500]"
  let ?c = "\<lparr>cd_description = ''dinner'', cd_amount = 2500, cd_date = None\<rparr>"
  have v: "CommitmentData offline ?dat = Inr ?c"
    by (simp add: CommitmentData_def validate_str_def validate_float_def validate_optional_def)
  have ok: "commit_ok offline" and down: "\<not> index_store_ok offline \<or> \<not> commit2_ok offline"
    by (simp_all add: offline_def)
  from commitment_survives_index_failure [OF v ok down, of empty_db "''u1''" "''dinner 2500''" 50]
  obtain res where h: "handle_commitment offline empty_db ''u1'' ''dinner 2500'' ?dat =
      (Inr res, empty_db\<lparr>financial_records :=
         financial_records empty_db @ [commitment_record empty_db ''u1'' ''dinner 2500'' ?c]\<rparr>)"
    and s: "success res"
    by blast
  from h have "map rec_id (get_user_history
      (snd (handle_commitment offline empty_db ''u1'' ''dinner 2500'' ?dat)) ''u1'' 50) = [1]"
    by (simp add: get_user_history_def empty_db_def commitment_record_def next_id_def)
  moreover from h s have "map_sum id success
      (fst (handle_commitment offline empty_db ''u1'' ''dinner 2500'' ?dat)) = Inr True"
    by simp
  ultimately show ?thesis
    using v ok by (simp add: offline_def)
qed

text \<open>
  C7 fails as it is stated: the schema asks for a string as description, not for a
  string that is not empty, and a payload with the empty description and the amount 5 is
  accepted; its event is appended.
\<close>

theorem commitment_empty_description_counterexample:
  "map_sum id success
     (fst (handle_commitment offline empty_db ''u1'' ''5''
             [''description'' \<mapsto> JStr [], ''amount'' \<mapsto> JNum 5])) = Inr True \<and>
   map description
     (financial_records
        (snd (handle_commitment offline empty_db ''u1'' ''5''
                [''description'' \<mapsto> JStr [], ''amount'' \<mapsto> JNum 5]))) = [Some []]"
proof -
  have "CommitmentData offline [''description'' \<mapsto> JStr [], ''amount'' \<mapsto> JNum 5] =
      Inr \<lparr>cd_description = [], cd_amount = 5, cd_date = None\<rparr>"
    by (simp add: CommitmentData_def validate_str_def validate_float_def validate_optional_def)
  moreover have "commit_ok offline" and "\<not> index_store_ok offline \<or> \<not> commit2_ok offline"
    by (simp_all add: offline_def)
  ultimately show ?thesis
    by (simp add: handle_commitment_unmirrored commitment_record_def empty_db_def)
qed

text \<open>
  C7, amended. The Commitment Handler validates the payload against a description that
  is a string, an amount that is a number above 0, and an optional date. A payload
  without description or without amount, or with a numeric amount that is 0 or less,
  and every other payload that the validation rejects, fails the request with a
  validation error and leaves the store as it was. A payload that passes is taken as it
  is, the description unchanged and a numeric amount unchanged: when the commit of the
  event goes through, whatever the mirroring step does afterwards, the request succeeds
  and the store has one more event, a FINANCIAL_COMMITMENT of the user with this
  description, this amount, the date of the payload and the raw text; when that commit
  fails, the request fails with the storage error and the store is as it was.
\<close>

theorem commitment_validation:
  "((\<exists>c. CommitmentData e dat = Inr c) \<longleftrightarrow>
      (\<exists>s a. dat ''description'' = Some (JStr s) \<and>
             Option.bind (dat ''amount'') (validate_float e) = Some a \<and> 0 < a \<and>
             validate_optional (lax_datetime e) (dat ''date'') \<noteq> None)) \<and>
   ((\<forall>c. CommitmentData e dat \<noteq> Inr c) \<longrightarrow>
      handle_commitment e d uid raw dat = (Inl ValidationError, d)) \<and>
   (dat ''description'' = None \<or> dat ''amount'' = None \<longrightarrow>
      handle_commitment e d uid raw dat = (Inl ValidationError, d)) \<and>
   (dat ''amount'' = Some (JNum a) \<and> a \<le> 0 \<longrightarrow>
      handle_commitment e d uid raw dat = (Inl ValidationError, d)) \<and>
   (CommitmentData e dat = Inr c \<longrightarrow>
      dat ''description'' = Some (JStr (cd_description c)) \<and>
      (\<forall>x. dat ''amount'' = Some (JNum x) \<longrightarrow> cd_amount c = x)) \<and>
   (CommitmentData e dat = Inr c \<and> commit_ok e \<longrightarrow>
      (\<exists>res. fst (handle_commitment e d uid raw dat) = Inr res \<and> success res) \<and>
      map user_id (financial_records (snd (handle_commitment e d uid raw dat))) =
        map user_id (financial_records d) @ [uid] \<and>
      map input_type (financial_records (snd (handle_commitment e d uid raw dat))) =
        map input_type (financial_records d) @ [FINANCIAL_COMMITMENT] \<and>
      map description (financial_records (snd (handle_commitment e d uid raw dat))) =
        map description (financial_records d) @ [Some (cd_description c)] \<and>
      map amount (financial_records (snd (handle_commitment e d uid raw dat))) =
        map amount (financial_records d) @ [Some (cd_amount c)] \<and>
      map commitment_date (financial_records (snd (handle_commitment e d uid raw dat))) =
        map commitment_date (financial_records d) @ [cd_date c] \<and>
      map raw_input (financial_records (snd (handle_commitment e d uid raw dat))) =
        map raw_input (financial_records d) @ [raw]) \<and>
   (CommitmentData e dat = Inr c \<and> \<not> commit_ok e \<longrightarrow>
      handle_commitment e d uid raw dat = (Inl StorageError, d))"
proof -
  have stored: "CommitmentData e dat = Inr c \<and> commit_ok e \<longrightarrow>
      (\<exists>res. fst (handle_commitment e d uid raw dat) = Inr res \<and> success res) \<and>
      map user_id (financial_records (snd (handle_commitment e d uid raw dat))) =
        map user_id (financial_records d) @ [uid] \<and>
      map input_type (financial_records (snd (handle_commitment e d uid raw dat))) =
        map input_type (financial_records d) @ [FINANCIAL_COMMITMENT] \<and>
      map description (financial_records (snd (handle_commitment e d uid raw dat))) =
        map description (financial_records d) @ [Some (cd_description c)] \<and>
      map amount (financial_records (snd (handle_commitment e d uid raw dat))) =
        map amount (financial_records d) @ [Some (cd_amount c)] \<and>
      map commitment_date (financial_records (snd (handle_commitment e d uid raw dat))) =
        map commitment_date (financial_records d) @ [cd_date c] \<and>
      map raw_input (financial_records (snd (handle_commitment e d uid raw dat))) =
        map raw_input (financial_records d) @ [raw]"
    using handle_commitment_stored [of e dat c d uid raw] by blast
  have failed: "CommitmentData e dat = Inr c \<and> \<not> commit_ok e \<longrightarrow>
      handle_commitment e d uid raw dat = (Inl StorageError, d)"
    using handle_commitment_failed [of e dat c d uid raw] by blast
  have rest: "((\<exists>c. CommitmentData e dat = Inr c) \<longleftrightarrow>
      (\<exists>s a. dat ''description'' = Some (JStr s) \<and>
             Option.bind (dat ''amount'') (validate_float e) = Some a \<and> 0 < a \<and>
             validate_optional (lax_datetime e) (dat ''date'') \<noteq> None)) \<and>
   ((\<forall>c. CommitmentData e dat \<noteq> Inr c) \<longrightarrow>
      handle_commitment e d uid raw dat = (Inl ValidationError, d)) \<and>
   (dat ''description'' = None \<or> dat ''amount'' = None \<longrightarrow>
      handle_commitment e d uid raw dat = (Inl ValidationError, d)) \<and>
   (dat ''amount'' = Some (JNum a) \<and> a \<le> 0 \<longrightarrow>
      handle_commitment e d uid raw dat = (Inl ValidationError, d)) \<and>
   (CommitmentData e dat = Inr c \<longrightarrow>
      dat ''description'' = Some (JStr (cd_description c)) \<and>
      (\<forall>x. dat ''amount'' = Some (JNum x) \<longrightarrow> cd_amount c = x))"
  proof (intro conjI impI)
  show "(\<exists>c. CommitmentData e dat = Inr c) \<longleftrightarrow>
      (\<exists>s a. dat ''description'' = Some (JStr s) \<and>
             Option.bind (dat ''amount'') (validate_float e) = Some a \<and> 0 < a \<and>
             validate_optional (lax_datetime e) (dat ''date'') \<noteq> None)"
    by (rule CommitmentData_valid)
next
  assume "\<forall>c. CommitmentData e dat \<noteq> Inr c"
  then obtain err where "CommitmentData e dat = Inl err"
    by (cases "CommitmentData e dat") auto
  then show "handle_commitment e d uid raw dat = (Inl ValidationError, d)"
    using CommitmentData_error handle_commitment_invalid by blast
next
  assume "dat ''description'' = None \<or> dat ''amount'' = None"
  then have "CommitmentData e dat = Inl ValidationError"
    by (auto simp: CommitmentData_def split: option.splits)
  then show "handle_commitment e d uid raw dat = (Inl ValidationError, d)"
    by (rule handle_commitment_invalid)
next
  assume "dat ''amount'' = Some (JNum a) \<and> a \<le> 0"
  then have "CommitmentData e dat = Inl ValidationError"
    by (auto simp: CommitmentData_def validate_float_def split: option.splits)
  then show "handle_commitment e d uid raw dat = (Inl ValidationError, d)"
    by (rule handle_commitment_invalid)
next
  assume "CommitmentData e dat = Inr c"
  then show "dat ''description'' = Some (JStr (cd_description c))"
    using CommitmentData_fields by blast
next
  assume c: "CommitmentData e dat = Inr c"
  show "\<forall>x. dat ''amount'' = Some (JNum x) \<longrightarrow> cd_amount c = x"
  proof (intro allI impI)
    fix x
    assume "dat ''amount'' = Some (JNum x)"
    with CommitmentData_fields [OF c] show "cd_amount c = x"
      by (simp add: validate_float_def)
  qed
  qed
  from rest have r1: "(\<exists>c. CommitmentData e dat = Inr c) \<longleftrightarrow>
      (\<exists>s a. dat ''description'' = Some (JStr s) \<and>
             Option.bind (dat ''amount'') (validate_float e) = Some a \<and> 0 < a \<and>
             validate_optional (lax_datetime e) (dat ''date'') \<noteq> None)"
    and r2: "(\<forall>c. CommitmentData e dat \<noteq> Inr c) \<longrightarrow>
      handle_commitment e d uid raw dat = (Inl ValidationError, d)"
    and r3: "dat ''description'' = None \<or> dat ''amount'' = None \<longrightarrow>
      handle_commitment e d uid raw dat = (Inl ValidationError, d)"
    and r4: "dat ''amount'' = Some (JNum a) \<and> a \<le> 0 \<longrightarrow>
      handle_commitment e d uid raw dat = (Inl ValidationError, d)"
    and r5: "CommitmentData e dat = Inr c \<longrightarrow>
      dat ''description'' = Some (JStr (cd_description c)) \<and>
      (\<forall>x. dat ''amount'' = Some (JNum x) \<longrightarrow> cd_amount c = x)"
    by (rule conjunct1, rule conjunct2 [THEN conjunct1],
        rule conjunct2 [THEN conjunct2, THEN conjunct1],
        rule conjunct2 [THEN conjunct2, THEN conjunct2, THEN conjunct1],
        rule conjunct2 [THEN conjunct2, THEN conjunct2, THEN conjunct2])
  show ?thesis
    by (rule conjI [OF r1 conjI [OF r2 conjI [OF r3 conjI [OF r4
          conjI [OF r5 conjI [OF stored failed]]]]]])
qed

theorem commitment_validation_witness:
  "[''description'' \<mapsto> JStr ''dinner'', ''amount'' \<mapsto> JNum (- 5)] ''amount'' = Some (JNum (- 5)) \<and>
   (- 5 :: real) \<le> 0 \<and>
   handle_commitment offline empty_db ''u1'' ''dinner -5''
     [''description'' \<mapsto> JStr ''dinner'', ''amount'' \<mapsto> JNum (- 5)] =
     (Inl ValidationError, empty_db) \<and>
   [''description'' \<mapsto> JStr ''dinner''] ''amount'' = None \<and>
   handle_commitment offline empty_db ''u1'' ''dinner'' [''description'' \<mapsto> JStr ''dinner''] =
     (Inl ValidationError, empty_db) \<and>
   (\<forall>c. CommitmentData offline [''amount'' \<mapsto> JNum 5] \<noteq> Inr c) \<and>
   handle_commitment offline empty_db ''u1'' ''5'' [''amount'' \<mapsto> JNum 5] =
     (Inl ValidationError, empty_db) \<and>
   CommitmentData offline [''description'' \<mapsto> JStr ''dinner'', ''amount'' \<mapsto> JNum 2500] =
     Inr \<lparr>cd_description = ''dinner'', cd_amount = 2500, cd_date = None\<rparr> \<and>
   [''description'' \<mapsto> JStr ''dinner'', ''amount'' \<mapsto> JNum 2500] ''description'' =
     Some (JStr (cd_description \<lparr>cd_description = ''dinner'', cd_amount = 2500, cd_date = None\<rparr>)) \<and>
   CommitmentData (offline\<lparr>index_store_ok := True\<rparr>)
     [''description'' \<mapsto> JStr ''dinner'', ''amount'' \<mapsto> JNum 2500] =
     Inr \<lparr>cd_description = ''dinner'', cd_amount = 2500, cd_date = None\<rparr> \<and>
   commit_ok (offline\<lparr>index_store_ok := True\<rparr>) \<and>
   map description
     (financial_records
        (snd (handle_commitment (offline\<lparr>index_store_ok := True\<rparr>) empty_db ''u1''
                ''dinner 2500'' [''description'' \<mapsto> JStr ''dinner'', ''amount'' \<mapsto> JNum 2500]))) =
     [Some ''dinner''] \<and>
   map amount
     (financial_records
        (snd (handle_commitment (offline\<lparr>index_store_ok := True\<rparr>) empty_db ''u1''
                ''dinner 2500'' [''description'' \<mapsto> JStr ''dinner'', ''amount'' \<mapsto> JNum 2500]))) =
     [Some 2500] \<and>
   CommitmentData (offline\<lparr>commit_ok := False\<rparr>)
     [''description'' \<mapsto> JStr ''dinner'', ''amount'' \<mapsto> JNum 2500] =
     Inr \<lparr>cd_description = ''dinner'', cd_amount = 2500, cd_date = None\<rparr> \<and>
   \<not> commit_ok (offline\<lparr>commit_ok := False\<rparr>) \<and>
   handle_commitment (offline\<lparr>commit_ok := False\<rparr>) empty_db ''u1'' ''dinner 2500''
     [''description'' \<mapsto> JStr ''dinner'', ''amount'' \<mapsto> JNum 2500] =
     (Inl StorageError, empty_db)"
proof -
  let ?ok = "[''description'' \<mapsto> JStr ''dinner'', ''amount'' \<mapsto> JNum 2500]"
  let ?c = "\<lparr>cd_description = ''dinner'', cd_amount = 2500, cd_date = None\<rparr>"
  let ?on = "offline\<lparr>index_store_ok := True\<rparr>"
  let ?ko = "offline\<lparr>commit_ok := False\<rparr>"
  have von: "CommitmentData ?on ?ok = Inr ?c" and vko: "CommitmentData ?ko ?ok = Inr ?c"
    by (simp_all add: CommitmentData_def validate_str_def validate_float_def
          validate_optional_def)
  have con: "commit_ok ?on" and cko: "\<not> commit_ok ?ko"
    by (simp_all add: offline_def)
  from von con
    commitment_validation [of ?on ?ok empty_db "''u1''" "''dinner 2500''" 0 ?c]
  have "map description (financial_records
        (snd (handle_commitment ?on empty_db ''u1'' ''dinner 2500'' ?ok))) =
      map description (financial_records empty_db) @ [Some (cd_description ?c)]"
    and "map amount (financial_records
        (snd (handle_commitment ?on empty_db ''u1'' ''dinner 2500'' ?ok))) =
      map amount (financial_records empty_db) @ [Some (cd_amount ?c)]"
    by blast+
  then have stored: "map description (financial_records
        (snd (handle_commitment ?on empty_db ''u1'' ''dinner 2500'' ?ok))) = [Some ''dinner'']"
    "map amount (financial_records
        (snd (handle_commitment ?on empty_db ''u1'' ''dinner 2500'' ?ok))) = [Some 2500]"
    by (simp_all add: empty_db_def)
  from vko cko
    commitment_validation [of ?ko ?ok empty_db "''u1''" "''dinner 2500''" 0 ?c]
  have failed: "handle_commitment ?ko empty_db ''u1'' ''dinner 2500'' ?ok =
      (Inl StorageError, empty_db)"
    by blast
  let ?neg = "[''description'' \<mapsto> JStr ''dinner'', ''amount'' \<mapsto> JNum (- 5)]"
  let ?noamt = "[''description'' \<mapsto> JStr ''dinner'']"
  let ?nodesc = "[''amount'' \<mapsto> JNum 5]"
  have n: "?neg ''amount'' = Some (JNum (- 5)) \<and> (- 5 :: real) \<le> 0"
    by simp
  have m: "?noamt ''description'' = None \<or> ?noamt ''amount'' = None"
    by simp
  have k: "\<forall>c. CommitmentData offline ?nodesc \<noteq> Inr c"
    by (simp add: CommitmentData_def)
  have v: "CommitmentData offline [''description'' \<mapsto> JStr ''dinner'', ''amount'' \<mapsto> JNum 2500] =
      Inr \<lparr>cd_description = ''dinner'', cd_amount = 2500, cd_date = None\<rparr>"
    by (simp add: CommitmentData_def validate_str_def validate_float_def validate_optional_def)
  from n commitment_validation [of offline ?neg empty_db "''u1''" "''dinner -5''" "- 5"]
  have "handle_commitment offline empty_db ''u1'' ''dinner -5'' ?neg =
      (Inl ValidationError, empty_db)"
    by blast
  moreover from m commitment_validation [of offline ?noamt empty_db "''u1''" "''dinner''"]
  have "handle_commitment offline empty_db ''u1'' ''dinner'' ?noamt =
      (Inl ValidationError, empty_db)"
    by blast
  moreover from k commitment_validation [of offline ?nodesc empty_db "''u1''" "''5''"]
  have "handle_commitment offline empty_db ''u1'' ''5'' ?nodesc = (Inl ValidationError, empty_db)"
    by blast
  moreover from v
    commitment_validation [of offline "[''description'' \<mapsto> JStr ''dinner'', ''amount'' \<mapsto> JNum 2500]"
      empty_db "''u1''" "''dinner 2500''" 0
      "\<lparr>cd_description = ''dinner'', cd_amount = 2500, cd_date = None\<rparr>"]
  have "[''description'' \<mapsto> JStr ''dinner'', ''amount'' \<mapsto> JNum 2500] ''description'' =
     Some (JStr (cd_description \<lparr>cd_description = ''dinner'', cd_amount = 2500, cd_date = None\<rparr>))"
    by blast
  ultimately show ?thesis
    using k v von vko con cko stored failed by simp
qed

subsection \<open>The upcoming commitments of the Question Handler\<close>

lemma insort_key_map_commute:
  assumes "\<And>x. k (f x) = k x"
  shows "insort_key k (f x) (map f ys) = map f (insort_key k x ys)"
  by (induction ys) (simp_all add: assms)

lemma sort_key_map_commute:
  assumes "\<And>x. k (f x) = k x"
  shows "sort_key k (map f xs) = map f (sort_key k xs)"
  by (induction xs) (simp_all add: insort_key_map_commute [of k f, OF assms])

lemma filter_map_commute:
  assumes "\<And>x. P (f x) = P x"
  shows "filter P (map f xs) = map f (filter P xs)"
  by (induction xs) (simp_all add: assms)

lemma upcoming_vector:
  "upcoming_commitments (apply_op d (SetVectorId i v)) uid now =
     map (\<lambda>r. if rec_id r = i then r\<lparr>vector_id := Some v\<rparr> else r)
       (upcoming_commitments d uid now)"
  by (simp add: upcoming_commitments_def filter_map_commute sort_key_map_commute take_map)

lemma upcoming_dicts_vector:
  "upcoming_dicts e (map (\<lambda>r. if rec_id r = i then r\<lparr>vector_id := Some v\<rparr> else r) rs) =
     upcoming_dicts e rs"
  by (induction rs) (simp_all add: upcoming_dicts_def)

lemma upcoming_add:
  "input_type r \<noteq> FINANCIAL_COMMITMENT \<or> commitment_date r = None \<Longrightarrow>
   upcoming_commitments (apply_op d (AddRecord r)) uid now = upcoming_commitments d uid now"
  by (auto simp: upcoming_commitments_def)

lemma upcoming_put:
  "upcoming_commitments (apply_op d (PutBalance u ub)) uid now = upcoming_commitments d uid now"
  by (simp add: upcoming_commitments_def)

lemma upcoming_dated:
  assumes "r \<in> set (upcoming_commitments d uid now)"
  shows "\<exists>t. commitment_date r = Some t \<and> now \<le> t"
proof -
  from assms have "r \<in> set (filter (\<lambda>r. user_id r = uid \<and> input_type r = FINANCIAL_COMMITMENT \<and>
      (case commitment_date r of Some t \<Rightarrow> now \<le> t | None \<Rightarrow> False)) (financial_records d))"
    unfolding upcoming_commitments_def by (auto dest: in_set_takeD)
  then show ?thesis
    by (cases "commitment_date r") simp_all
qed

lemma upcoming_ignores_undated:
  "upcoming_commitments d uid now =
     upcoming_commitments
       (d\<lparr>financial_records := filter (\<lambda>r. commitment_date r \<noteq> None) (financial_records d)\<rparr>)
       uid now"
proof -
  have sel: "financial_records (d\<lparr>financial_records := rs\<rparr>) = rs" for rs
    by simp
  have dated: "filter (\<lambda>r. user_id r = uid \<and> input_type r = FINANCIAL_COMMITMENT \<and>
          (case commitment_date r of Some t \<Rightarrow> now \<le> t | None \<Rightarrow> False))
          (filter (\<lambda>r. commitment_date r \<noteq> None) rs) =
        filter (\<lambda>r. user_id r = uid \<and> input_type r = FINANCIAL_COMMITMENT \<and>
          (case commitment_date r of Some t \<Rightarrow> now \<le> t | None \<Rightarrow> False)) rs" for rs
    by (induction rs) auto
  show ?thesis
    unfolding upcoming_commitments_def sel dated by (rule refl)
qed

lemma handle_balance_update_upcoming:
  "upcoming_commitments (snd (handle_balance_update e d uid raw dat)) u now =
     upcoming_commitments d u now"
proof -
  have "upcoming_commitments (balance_written e d uid raw b) u now = upcoming_commitments d u now"
    for b
    by (simp add: balance_written_def upcoming_commitments_def)
  with handle_balance_update_cases [of e d uid raw dat] show ?thesis
    by auto
qed

lemma handle_question_upcoming:
  "upcoming_commitments (snd (handle_question e d uid raw dat)) u now =
     upcoming_commitments d u now"
  by (simp add: handle_question_def db_commit_def Let_def upcoming_add
           del: apply_op.simps split: sum.splits)

lemma handle_commitment_upcoming:
  assumes "\<And>c. CommitmentData e dat = Inr c \<Longrightarrow> cd_date c = None"
  shows "upcoming_dicts e' (upcoming_commitments (snd (handle_commitment e d uid raw dat)) u now) =
         upcoming_dicts e' (upcoming_commitments d u now)"
proof (cases "CommitmentData e dat")
  case (Inl err)
  then show ?thesis
    by (simp add: handle_commitment_invalid)
next
  case (Inr c)
  with assms have "cd_date c = None"
    by simp
  with Inr show ?thesis
    by (simp add: handle_commitment_def db_commit_def Let_def upcoming_add upcoming_vector
          upcoming_dicts_vector del: apply_op.simps)
qed

lemma fallback_commitment_undated:
  assumes "fallback_classification text = Inr c"
    and "ci_input_type c = FINANCIAL_COMMITMENT"
  shows "ci_extracted_data c ''date'' = Some JNull"
  using assms
  by (auto simp: fallback_classification_def Let_def split: if_splits sum.splits)

lemma CommitmentData_null_date:
  assumes "dat ''date'' = Some JNull" and "CommitmentData e dat = Inr c"
  shows "cd_date c = None"
  using CommitmentData_fields [OF assms(2)] assms(1)
  by (simp add: validate_optional_def)

lemma fallback_request_upcoming:
  assumes "llm_classification e = None"
  shows "upcoming_dicts e' (upcoming_commitments (snd (process_input e d u text)) uid now) =
         upcoming_dicts e' (upcoming_commitments d uid now)"
proof (cases "fallback_classification text")
  case (Inl err)
  with assms show ?thesis
    by (simp add: process_input_def classify_and_extract_def)
next
  case (Inr c)
  show ?thesis
  proof (cases "ci_input_type c")
    case FINANCIAL_COMMITMENT
    with Inr have "ci_extracted_data c ''date'' = Some JNull"
      by (rule fallback_commitment_undated)
    then have "upcoming_dicts e'
        (upcoming_commitments (snd (handle_commitment e d u text (ci_extracted_data c))) uid now) =
        upcoming_dicts e' (upcoming_commitments d uid now)"
      by (intro handle_commitment_upcoming CommitmentData_null_date)
    with assms Inr FINANCIAL_COMMITMENT show ?thesis
      by (simp add: process_input_def classify_and_extract_def)
  next
    case BALANCE_UPDATE
    with assms Inr show ?thesis
      by (simp add: process_input_def classify_and_extract_def handle_balance_update_upcoming)
  next
    case QUESTION
    with assms Inr show ?thesis
      by (simp add: process_input_def classify_and_extract_def handle_question_upcoming)
  qed
qed

text \<open>
  The advice in the result of the Question Handler: the Advice Generator is given the
  balance of the user and the upcoming commitments of the query, and nothing else of the
  store.
\<close>

lemma handle_question_advice:
  "map_sum id advice (fst (handle_question e d uid raw dat)) =
     (case QuestionData e dat of
        Inl err \<Rightarrow> Inl err
      | Inr qd \<Rightarrow>
          (case generate_advice e (qd_question qd) (current_balance_of d uid)
                  (upcoming_dicts e (upcoming_commitments d uid (utcnow e)))
                  (qd_target_amount qd) of
             Inl err \<Rightarrow> Inl err
           | Inr adv \<Rightarrow> if commit_ok e then Inr (Some adv) else Inl StorageError))"
  by (simp add: handle_question_def db_commit_def Let_def split: sum.splits)

lemma handle_question_ignores_undated:
  "map_sum id advice (fst (handle_question e d uid raw dat)) =
   map_sum id advice
     (fst (handle_question e
        (d\<lparr>financial_records := filter (\<lambda>r. commitment_date r \<noteq> None) (financial_records d)\<rparr>)
        uid raw dat))"
proof -
  have bal: "current_balance_of
      (d\<lparr>financial_records := filter (\<lambda>r. commitment_date r \<noteq> None) (financial_records d)\<rparr>)
      uid = current_balance_of d uid"
    by (simp add: current_balance_of_def)
  have ups: "upcoming_commitments
      (d\<lparr>financial_records := filter (\<lambda>r. commitment_date r \<noteq> None) (financial_records d)\<rparr>)
      uid (utcnow e) = upcoming_commitments d uid (utcnow e)"
    by (rule upcoming_ignores_undated [symmetric])
  show ?thesis
    unfolding handle_question_advice bal ups by (rule refl)
qed

lemma handle_question_advice_committed:
  assumes "QuestionData e dat = Inr qd" and "commit_ok e"
  shows "map_sum id advice (fst (handle_question e d uid raw dat)) =
     map_sum id Some
       (generate_advice e (qd_question qd) (current_balance_of d uid)
          (upcoming_dicts e (upcoming_commitments d uid (utcnow e))) (qd_target_amount qd))"
  unfolding handle_question_advice using assms by (simp split: sum.splits)

lemma fallback_commitment_question:
  assumes "llm_classification e = None" and "fallback_classification text = Inr c"
    and "ci_input_type c = FINANCIAL_COMMITMENT"
  shows "map_sum id advice
           (fst (handle_question e' (snd (process_input e d u text)) uid raw dat)) =
         map_sum id advice (fst (handle_question e' d uid raw dat))"
proof -
  from assms have p: "process_input e d u text =
      handle_commitment e d u text (ci_extracted_data c)"
    by (simp add: process_input_def classify_and_extract_def)
  from assms(2,3) have "ci_extracted_data c ''date'' = Some JNull"
    by (rule fallback_commitment_undated)
  then have dicts: "upcoming_dicts e'
      (upcoming_commitments (snd (handle_commitment e d u text (ci_extracted_data c))) uid
         (utcnow e')) =
      upcoming_dicts e' (upcoming_commitments d uid (utcnow e'))"
    by (intro handle_commitment_upcoming CommitmentData_null_date)
  have "user_balances (snd (handle_commitment e d u text (ci_extracted_data c))) =
      user_balances d"
    using handle_commitment_balances by blast
  then have bal: "current_balance_of (snd (handle_commitment e d u text (ci_extracted_data c)))
      uid = current_balance_of d uid"
    by (simp add: current_balance_of_def)
  show ?thesis
    unfolding handle_question_advice p dicts bal by (rule refl)
qed

text \<open>
  C10. The query for the upcoming commitments returns only events with a date, at or
  after the time of the question, so an event without a date never enters the list whose
  amounts are summed: the query gives the same list on the store with the undated events
  taken out. The Question Handler hands this list and the balance to the Advice
  Generator, so the advice in its result is the same on the store with the undated
  events taken out. A request classified by the fallback classifier never changes the
  list that the Advice Generator receives, for any user and any time: the commitment it
  may create has no date, and a question asked after such a commitment gets the advice
  it would have got before it.
\<close>

theorem undated_commitments_excluded:
  "(\<forall>r \<in> set (upcoming_commitments d uid now). \<exists>t. commitment_date r = Some t \<and> now \<le> t) \<and>
   upcoming_commitments d uid now =
     upcoming_commitments
       (d\<lparr>financial_records := filter (\<lambda>r. commitment_date r \<noteq> None) (financial_records d)\<rparr>)
       uid now \<and>
   (llm_classification e = None \<longrightarrow>
      (\<forall>c. fallback_classification text = Inr c \<and> ci_input_type c = FINANCIAL_COMMITMENT \<longrightarrow>
           ci_extracted_data c ''date'' = Some JNull) \<and>
      upcoming_dicts e' (upcoming_commitments (snd (process_input e d u text)) uid now) =
        upcoming_dicts e' (upcoming_commitments d uid now)) \<and>
   map_sum id advice (fst (handle_question e' d uid raw dat)) =
     map_sum id advice
       (fst (handle_question e'
          (d\<lparr>financial_records := filter (\<lambda>r. commitment_date r \<noteq> None) (financial_records d)\<rparr>)
          uid raw dat)) \<and>
   (QuestionData e' dat = Inr qd \<and> commit_ok e' \<longrightarrow>
      map_sum id advice (fst (handle_question e' d uid raw dat)) =
        map_sum id Some
          (generate_advice e' (qd_question qd) (current_balance_of d uid)
             (upcoming_dicts e' (upcoming_commitments d uid (utcnow e')))
             (qd_target_amount qd))) \<and>
   (llm_classification e = None \<and> fallback_classification text = Inr k \<and>
    ci_input_type k = FINANCIAL_COMMITMENT \<longrightarrow>
      map_sum id advice
        (fst (handle_question e' (snd (process_input e d u text)) uid raw dat)) =
      map_sum id advice (fst (handle_question e' d uid raw dat)))"
proof (intro conjI)
  show "\<forall>r \<in> set (upcoming_commitments d uid now). \<exists>t. commitment_date r = Some t \<and> now \<le> t"
    using upcoming_dated by blast
next
  show "upcoming_commitments d uid now =
     upcoming_commitments
       (d\<lparr>financial_records := filter (\<lambda>r. commitment_date r \<noteq> None) (financial_records d)\<rparr>)
       uid now"
    by (rule upcoming_ignores_undated)
next
  show "llm_classification e = None \<longrightarrow>
      (\<forall>c. fallback_classification text = Inr c \<and> ci_input_type c = FINANCIAL_COMMITMENT \<longrightarrow>
           ci_extracted_data c ''date'' = Some JNull) \<and>
      upcoming_dicts e' (upcoming_commitments (snd (process_input e d u text)) uid now) =
        upcoming_dicts e' (upcoming_commitments d uid now)"
    using fallback_request_upcoming [of e e' d u "text" uid now]
      fallback_commitment_undated [of "text"]
    by blast
next
  show "map_sum id advice (fst (handle_question e' d uid raw dat)) =
     map_sum id advice
       (fst (handle_question e'
          (d\<lparr>financial_records := filter (\<lambda>r. commitment_date r \<noteq> None) (financial_records d)\<rparr>)
          uid raw dat))"
    by (rule handle_question_ignores_undated)
next
  show "QuestionData e' dat = Inr qd \<and> commit_ok e' \<longrightarrow>
      map_sum id advice (fst (handle_question e' d uid raw dat)) =
        map_sum id Some
          (generate_advice e' (qd_question qd) (current_balance_of d uid)
             (upcoming_dicts e' (upcoming_commitments d uid (utcnow e')))
             (qd_target_amount qd))"
    using handle_question_advice_committed by blast
next
  show "llm_classification e = None \<and> fallback_classification text = Inr k \<and>
    ci_input_type k = FINANCIAL_COMMITMENT \<longrightarrow>
      map_sum id advice
        (fst (handle_question e' (snd (process_input e d u text)) uid raw dat)) =
      map_sum id advice (fst (handle_question e' d uid raw dat))"
    using fallback_commitment_question by blast
qed

theorem undated_commitments_excluded_witness:
  "llm_classification offline = None \<and>
   map rec_id (upcoming_commitments ledger_example ''u1'' 50) = [1] \<and>
   map commitment_date (upcoming_commitments ledger_example ''u1'' 50) = [Some 100] \<and>
   (50 :: int) \<le> 100 \<and>
   fallback_classification ''dinner Saturday 2500'' =
     Inr \<lparr>ci_input_type = FINANCIAL_COMMITMENT, ci_confidence = 0.6,
          ci_extracted_data = [''description'' \<mapsto> JStr ''dinner Saturday 2500'',
            ''amount'' \<mapsto> JNum 2500, ''date'' \<mapsto> JNull]\<rparr> \<and>
   map commitment_date
     (financial_records (snd (process_input offline ledger_example ''u1'' ''dinner Saturday 2500''))) =
     [Some 100, None, None] \<and>
   upcoming_dicts offline
     (upcoming_commitments
        (snd (process_input offline ledger_example ''u1'' ''dinner Saturday 2500'')) ''u1'' 50) =
     upcoming_dicts offline (upcoming_commitments ledger_example ''u1'' 50) \<and>
   QuestionData offline [''question'' \<mapsto> JStr ''can I afford 500?'', ''target_amount'' \<mapsto> JNum 500] =
     Inr \<lparr>qd_question = ''can I afford 500?'', qd_target_amount = Some 500\<rparr> \<and>
   commit_ok offline \<and>
   map_sum id advice
     (fst (handle_question offline ledger_example ''u1'' ''can I afford 500?''
        [''question'' \<mapsto> JStr ''can I afford 500?'', ''target_amount'' \<mapsto> JNum 500])) =
     Inr (Some ''Based on your balance of $0.00 and upcoming commitments of $2000.00, you have $-2000.00 available. The $500.00 purchase exceeds your available funds. Consider waiting until after your commitments are fulfilled.'') \<and>
   map_sum id advice
     (fst (handle_question offline
        (snd (process_input offline ledger_example ''u1'' ''dinner Saturday 2500''))
        ''u1'' ''can I afford 500?''
        [''question'' \<mapsto> JStr ''can I afford 500?'', ''target_amount'' \<mapsto> JNum 500])) =
     Inr (Some ''Based on your balance of $0.00 and upcoming commitments of $2000.00, you have $-2000.00 available. The $500.00 purchase exceeds your available funds. Consider waiting until after your commitments are fulfilled.'')"
proof -
  let ?q = "[''question'' \<mapsto> JStr ''can I afford 500?'', ''target_amount'' \<mapsto> JNum 500]"
  let ?qd = "\<lparr>qd_question = ''can I afford 500?'', qd_target_amount = Some 500\<rparr>"
  have off: "llm_classification offline = None" and ok: "commit_ok offline"
    by (simp_all add: offline_def)
  have up: "map rec_id (upcoming_commitments ledger_example ''u1'' 50) = [1]"
    and dates: "map commitment_date (upcoming_commitments ledger_example ''u1'' 50) = [Some 100]"
    by (simp_all add: upcoming_commitments_def ledger_example_def)
  have fb: "fallback_classification ''dinner Saturday 2500'' =
      Inr \<lparr>ci_input_type = FINANCIAL_COMMITMENT, ci_confidence = 0.6,
           ci_extracted_data = [''description'' \<mapsto> JStr ''dinner Saturday 2500'',
             ''amount'' \<mapsto> JNum 2500, ''date'' \<mapsto> JNull]\<rparr>"
    by (simp add: text_eval)
  have v: "CommitmentData offline [''description'' \<mapsto> JStr ''dinner Saturday 2500'',
             ''amount'' \<mapsto> JNum 2500, ''date'' \<mapsto> JNull] =
      Inr \<lparr>cd_description = ''dinner Saturday 2500'', cd_amount = 2500, cd_date = None\<rparr>"
    by (simp add: CommitmentData_def validate_str_def validate_float_def validate_optional_def)
  have "commit_ok offline" and "\<not> index_store_ok offline \<or> \<not> commit2_ok offline"
    by (simp_all add: offline_def)
  with v have "snd (handle_commitment offline ledger_example ''u1'' ''dinner Saturday 2500''
      [''description'' \<mapsto> JStr ''dinner Saturday 2500'', ''amount'' \<mapsto> JNum 2500,
       ''date'' \<mapsto> JNull]) =
      ledger_example\<lparr>financial_records := financial_records ledger_example @
        [commitment_record ledger_example ''u1'' ''dinner Saturday 2500''
           \<lparr>cd_description = ''dinner Saturday 2500'', cd_amount = 2500, cd_date = None\<rparr>]\<rparr>"
    by (simp add: handle_commitment_unmirrored)
  with off fb have recs: "map commitment_date
     (financial_records (snd (process_input offline ledger_example ''u1'' ''dinner Saturday 2500''))) =
     [Some 100, None, None]"
    by (simp add: process_input_def classify_and_extract_def commitment_record_def
          ledger_example_def)
  have qv: "QuestionData offline ?q = Inr ?qd"
    by (simp add: QuestionData_def validate_str_def validate_float_def validate_optional_def)
  have bal: "current_balance_of ledger_example ''u1'' = 0"
    by (simp add: current_balance_of_def ledger_example_def)
  have dicts: "upcoming_dicts offline (upcoming_commitments ledger_example ''u1'' (utcnow offline)) =
      [[''description'' \<mapsto> JStr ''rent'', ''amount'' \<mapsto> JNum 2000, ''date'' \<mapsto> JStr []]]"
    by (simp add: upcoming_dicts_def upcoming_commitments_def ledger_example_def json_opt_def
          offline_def)
  have tot: "sum_amounts offline
      [[''description'' \<mapsto> JStr ''rent'', ''amount'' \<mapsto> JNum 2000, ''date'' \<mapsto> JStr []]] = Inr 2000"
    by (simp add: sum_amounts_def)
  have adv: "generate_advice offline ''can I afford 500?'' 0
      [[''description'' \<mapsto> JStr ''rent'', ''amount'' \<mapsto> JNum 2000, ''date'' \<mapsto> JStr []]]
      (Some 500) =
      Inr ''Based on your balance of $0.00 and upcoming commitments of $2000.00, you have $-2000.00 available. The $500.00 purchase exceeds your available funds. Consider waiting until after your commitments are fulfilled.''"
  proof -
    have la: "llm_advice offline = None" and fr: "float_round offline x = x" for x
      by (simp_all add: offline_def)
    show ?thesis
      by (simp add: generate_advice_def tot la fr advice_wait_def fmt_2f_def
            round_half_even_def show_nat.simps)
  qed
  from qv ok undated_commitments_excluded
    [of ledger_example "''u1''" 50 offline "''dinner Saturday 2500''" offline "''u1''"
        "''can I afford 500?''" ?q ?qd]
  have "map_sum id advice
     (fst (handle_question offline ledger_example ''u1'' ''can I afford 500?'' ?q)) =
     map_sum id Some
       (generate_advice offline (qd_question ?qd) (current_balance_of ledger_example ''u1'')
          (upcoming_dicts offline (upcoming_commitments ledger_example ''u1'' (utcnow offline)))
          (qd_target_amount ?qd))"
    by blast
  then have before: "map_sum id advice
     (fst (handle_question offline ledger_example ''u1'' ''can I afford 500?'' ?q)) =
     Inr (Some ''Based on your balance of $0.00 and upcoming commitments of $2000.00, you have $-2000.00 available. The $500.00 purchase exceeds your available funds. Consider waiting until after your commitments are fulfilled.'')"
    by (simp add: bal dicts adv)
  from off fb undated_commitments_excluded
    [of ledger_example "''u1''" 50 offline "''dinner Saturday 2500''" offline "''u1''"
        "''can I afford 500?''" ?q ?qd
        "\<lparr>ci_input_type = FINANCIAL_COMMITMENT, ci_confidence = 0.6,
           ci_extracted_data = [''description'' \<mapsto> JStr ''dinner Saturday 2500'',
             ''amount'' \<mapsto> JNum 2500, ''date'' \<mapsto> JNull]\<rparr>"]
  have same: "map_sum id advice
     (fst (handle_question offline
        (snd (process_input offline ledger_example ''u1'' ''dinner Saturday 2500''))
        ''u1'' ''can I afford 500?'' ?q)) =
     map_sum id advice
       (fst (handle_question offline ledger_example ''u1'' ''can I afford 500?'' ?q))"
    and dsame: "upcoming_dicts offline
     (upcoming_commitments
        (snd (process_input offline ledger_example ''u1'' ''dinner Saturday 2500'')) ''u1'' 50) =
     upcoming_dicts offline (upcoming_commitments ledger_example ''u1'' 50)"
    by simp_all
  from off ok up dates fb recs qv before same dsame show ?thesis
    by simp
qed

subsection \<open>The fallback of the Advice Generator\<close>

lemmas format_eval = fmt_2f_def round_half_even_def show_nat.simps

lemma amount_values_numbers:
  "amount_values (map (\<lambda>a. [''amount'' \<mapsto> JNum a]) xs) = Inr xs"
  by (induction xs) simp_all

lemma sum_amounts_none: "sum_amounts e [] = Inr 0"
  by (simp add: sum_amounts_def)

lemma sum_amounts_one: "sum_amounts e [[''amount'' \<mapsto> JNum a]] = Inr a"
  by (simp add: sum_amounts_def)

lemma sum_amounts_more:
  "sum_amounts e (map (\<lambda>a. [''amount'' \<mapsto> JNum a]) (a # b # xs)) = Inr (float_sum e (a # b # xs))"
  by (simp add: sum_amounts_def amount_values_numbers)

lemma generate_advice_wait:
  assumes "llm_advice e = None" and "sum_amounts e upcoming = Inr tot"
    and "t \<noteq> 0" and "float_round e (current - tot) < t"
  shows "generate_advice e q current upcoming (Some t) =
         Inr (advice_wait current tot (float_round e (current - tot)) t)"
  using assms by (simp add: generate_advice_def)

lemma generate_advice_affordable:
  assumes "llm_advice e = None" and "sum_amounts e upcoming = Inr tot"
    and "target = None \<or> target = Some 0 \<or>
         (\<exists>t. target = Some t \<and> t \<le> float_round e (current - tot))"
  shows "generate_advice e q current upcoming target =
         Inr (advice_affordable (float_round e (current - tot)))"
  using assms by (auto simp: generate_advice_def)

lemma generate_advice_zero_target:
  "generate_advice e q current upcoming (Some 0) = generate_advice e q current upcoming None"
  by (simp add: generate_advice_def Let_def split: sum.splits option.splits)

lemma advice_wait_example:
  "advice_wait 10000 3500 6500 8000 =
     ''Based on your balance of $10000.00 and upcoming commitments of $3500.00, you have $6500.00 available. The $8000.00 purchase exceeds your available funds. Consider waiting until after your commitments are fulfilled.''"
  by (simp add: advice_wait_def format_eval)

lemma advice_affordable_example:
  "advice_affordable 6500 =
     ''You have $6500.00 available after upcoming commitments. This purchase appears affordable, but ensure you maintain an emergency buffer.''"
  by (simp add: advice_affordable_def format_eval)

lemma sum_amounts_example:
  "float_sum e [2000, 1500] = 3500 \<Longrightarrow>
   sum_amounts e [[''amount'' \<mapsto> JNum 2000], [''amount'' \<mapsto> JNum 1500]] = Inr 3500"
  by (simp add: sum_amounts_def)

lemma generate_advice_example_wait:
  assumes "llm_advice e = None" and "float_sum e [2000, 1500] = 3500"
    and "float_round e 6500 = 6500"
  shows "generate_advice e q 10000 [[''amount'' \<mapsto> JNum 2000], [''amount'' \<mapsto> JNum 1500]]
      (Some 8000) =
      Inr ''Based on your balance of $10000.00 and upcoming commitments of $3500.00, you have $6500.00 available. The $8000.00 purchase exceeds your available funds. Consider waiting until after your commitments are fulfilled.''"
proof -
  have "generate_advice e q 10000 [[''amount'' \<mapsto> JNum 2000], [''amount'' \<mapsto> JNum 1500]]
      (Some 8000) = Inr (advice_wait 10000 3500 (float_round e (10000 - 3500)) 8000)"
    by (rule generate_advice_wait [OF assms(1) sum_amounts_example [OF assms(2)]])
       (simp_all add: assms(3))
  then show ?thesis
    by (simp add: assms(3) advice_wait_example)
qed

lemma generate_advice_example_affordable:
  assumes "llm_advice e = None" and "float_sum e [2000, 1500] = 3500"
    and "float_round e 6500 = 6500"
  shows "generate_advice e q 10000 [[''amount'' \<mapsto> JNum 2000], [''amount'' \<mapsto> JNum 1500]]
      (Some 5000) =
      Inr ''You have $6500.00 available after upcoming commitments. This purchase appears affordable, but ensure you maintain an emergency buffer.''"
proof -
  have "generate_advice e q 10000 [[''amount'' \<mapsto> JNum 2000], [''amount'' \<mapsto> JNum 1500]]
      (Some 5000) = Inr (advice_affordable (float_round e (10000 - 3500)))"
    by (rule generate_advice_affordable [OF assms(1) sum_amounts_example [OF assms(2)]])
       (simp add: assms(3))
  then show ?thesis
    by (simp add: assms(3) advice_affordable_example)
qed

text \<open>
  C2 fails as it is stated: with balance 10000, upcoming commitments 2000 and 1500 and
  the target 8000, the fallback advice names the balance, the total of the commitments,
  the available funds and the target, and recommends waiting; the shortfall of 1500 is
  not in it.
\<close>

theorem fallback_advice_shortfall_counterexample:
  "llm_advice offline = None \<and>
   generate_advice offline ''can I afford it?'' 10000
     [[''amount'' \<mapsto> JNum 2000], [''amount'' \<mapsto> JNum 1500]] (Some 8000) =
     Inr ''Based on your balance of $10000.00 and upcoming commitments of $3500.00, you have $6500.00 available. The $8000.00 purchase exceeds your available funds. Consider waiting until after your commitments are fulfilled.'' \<and>
   \<not> py_in ''1500''
     ''Based on your balance of $10000.00 and upcoming commitments of $3500.00, you have $6500.00 available. The $8000.00 purchase exceeds your available funds. Consider waiting until after your commitments are fulfilled.''"
proof -
  have off: "llm_advice offline = None"
    and s: "float_sum offline [2000, 1500] = 3500"
    and r: "float_round offline 6500 = 6500"
    by (simp_all add: offline_def)
  show ?thesis
    unfolding generate_advice_example_wait [OF off s r] using off by simp
qed

text \<open>
  C2, amended. When the call to the backend fails, the fallback computes the available
  funds as the balance minus the sum of the amounts of the upcoming commitments, in the
  arithmetic of floats: the sum as \<^verbatim>\<open>sum\<close> rounds it and the difference rounded. When a
  target is given, is not 0 and exceeds the available funds, the advice names the
  balance, the total of the commitments, the available funds and the target, says that
  the purchase exceeds the available funds and recommends waiting. In every other case,
  a target of 0 among them, it names the available funds and recommends keeping a
  buffer. For balance 10000, commitments 2000 and 1500 and target 8000, where the
  arithmetic of floats is exact, the available funds are 6500 and the advice recommends
  waiting; for the target 5000 it recommends the buffer.
\<close>

theorem fallback_advice:
  "(llm_advice e = None \<and> sum_amounts e upcoming = Inr tot \<and> t \<noteq> 0 \<and>
    float_round e (current - tot) < t \<longrightarrow>
      generate_advice e q current upcoming (Some t) =
        Inr (advice_wait current tot (float_round e (current - tot)) t)) \<and>
   (llm_advice e = None \<and> sum_amounts e upcoming = Inr tot \<and>
    (target = None \<or> target = Some 0 \<or>
     (\<exists>x. target = Some x \<and> x \<le> float_round e (current - tot))) \<longrightarrow>
      generate_advice e q current upcoming target =
        Inr (advice_affordable (float_round e (current - tot)))) \<and>
   sum_amounts e [] = Inr 0 \<and>
   sum_amounts e [[''amount'' \<mapsto> JNum a]] = Inr a \<and>
   sum_amounts e (map (\<lambda>a. [''amount'' \<mapsto> JNum a]) (a # b # xs)) =
     Inr (float_sum e (a # b # xs)) \<and>
   (llm_advice e = None \<and> float_sum e [2000, 1500] = 3500 \<and> float_round e 6500 = 6500 \<longrightarrow>
      generate_advice e q 10000 [[''amount'' \<mapsto> JNum 2000], [''amount'' \<mapsto> JNum 1500]]
        (Some 8000) =
        Inr ''Based on your balance of $10000.00 and upcoming commitments of $3500.00, you have $6500.00 available. The $8000.00 purchase exceeds your available funds. Consider waiting until after your commitments are fulfilled.'' \<and>
      generate_advice e q 10000 [[''amount'' \<mapsto> JNum 2000], [''amount'' \<mapsto> JNum 1500]]
        (Some 5000) =
        Inr ''You have $6500.00 available after upcoming commitments. This purchase appears affordable, but ensure you maintain an emergency buffer.'')"
proof (intro conjI impI)
  assume "llm_advice e = None \<and> sum_amounts e upcoming = Inr tot \<and> t \<noteq> 0 \<and>
    float_round e (current - tot) < t"
  then show "generate_advice e q current upcoming (Some t) =
      Inr (advice_wait current tot (float_round e (current - tot)) t)"
    by (simp add: generate_advice_wait)
next
  assume "llm_advice e = None \<and> sum_amounts e upcoming = Inr tot \<and>
    (target = None \<or> target = Some 0 \<or>
     (\<exists>x. target = Some x \<and> x \<le> float_round e (current - tot)))"
  then show "generate_advice e q current upcoming target =
      Inr (advice_affordable (float_round e (current - tot)))"
    using generate_advice_affordable by blast
next
  show "sum_amounts e [] = Inr 0"
    by (rule sum_amounts_none)
next
  show "sum_amounts e [[''amount'' \<mapsto> JNum a]] = Inr a"
    by (rule sum_amounts_one)
next
  show "sum_amounts e (map (\<lambda>a. [''amount'' \<mapsto> JNum a]) (a # b # xs)) =
      Inr (float_sum e (a # b # xs))"
    by (rule sum_amounts_more)
next
  assume "llm_advice e = None \<and> float_sum e [2000, 1500] = 3500 \<and> float_round e 6500 = 6500"
  then show "generate_advice e q 10000 [[''amount'' \<mapsto> JNum 2000], [''amount'' \<mapsto> JNum 1500]]
      (Some 8000) =
      Inr ''Based on your balance of $10000.00 and upcoming commitments of $3500.00, you have $6500.00 available. The $8000.00 purchase exceeds your available funds. Consider waiting until after your commitments are fulfilled.''"
    by (simp add: generate_advice_example_wait)
next
  assume "llm_advice e = None \<and> float_sum e [2000, 1500] = 3500 \<and> float_round e 6500 = 6500"
  then show "generate_advice e q 10000 [[''amount'' \<mapsto> JNum 2000], [''amount'' \<mapsto> JNum 1500]]
      (Some 5000) =
      Inr ''You have $6500.00 available after upcoming commitments. This purchase appears affordable, but ensure you maintain an emergency buffer.''"
    by (simp add: generate_advice_example_affordable)
qed

theorem fallback_advice_witness:
  "llm_advice offline = None \<and>
   float_sum offline [2000, 1500] = 3500 \<and> float_round offline 6500 = 6500 \<and>
   sum_amounts offline [[''amount'' \<mapsto> JNum 300], [''amount'' \<mapsto> JNum 200]] = Inr 500 \<and>
   (900 :: real) \<noteq> 0 \<and> float_round offline (1000 - 500) < 900 \<and>
   generate_advice offline ''can i?'' 1000
     [[''amount'' \<mapsto> JNum 300], [''amount'' \<mapsto> JNum 200]] (Some 900) =
     Inr ''Based on your balance of $1000.00 and upcoming commitments of $500.00, you have $500.00 available. The $900.00 purchase exceeds your available funds. Consider waiting until after your commitments are fulfilled.'' \<and>
   generate_advice offline ''can i?'' 1000
     [[''amount'' \<mapsto> JNum 300], [''amount'' \<mapsto> JNum 200]] (Some 0) =
     Inr ''You have $500.00 available after upcoming commitments. This purchase appears affordable, but ensure you maintain an emergency buffer.'' \<and>
   generate_advice offline ''can i?'' 10000
     [[''amount'' \<mapsto> JNum 2000], [''amount'' \<mapsto> JNum 1500]] (Some 5000) =
     Inr ''You have $6500.00 available after upcoming commitments. This purchase appears affordable, but ensure you maintain an emergency buffer.''"
proof -
  have off: "llm_advice offline = None"
    and fs: "float_sum offline [2000, 1500] = 3500"
    and fr: "float_round offline 6500 = 6500"
    and r: "float_round offline (1000 - 500) = 500"
    by (simp_all add: offline_def)
  have s: "sum_amounts offline [[''amount'' \<mapsto> JNum 300], [''amount'' \<mapsto> JNum 200]] = Inr 500"
    by (simp add: sum_amounts_def offline_def)
  have w: "advice_wait 1000 500 500 900 =
      ''Based on your balance of $1000.00 and upcoming commitments of $500.00, you have $500.00 available. The $900.00 purchase exceeds your available funds. Consider waiting until after your commitments are fulfilled.''"
    by (simp add: advice_wait_def format_eval)
  have a: "advice_affordable 500 =
      ''You have $500.00 available after upcoming commitments. This purchase appears affordable, but ensure you maintain an emergency buffer.''"
    by (simp add: advice_affordable_def format_eval)
  from off s r
    fallback_advice [of offline "[[''amount'' \<mapsto> JNum 300], [''amount'' \<mapsto> JNum 200]]"
      500 900 1000 "''can i?''" "Some 0"]
  have "generate_advice offline ''can i?'' 1000
      [[''amount'' \<mapsto> JNum 300], [''amount'' \<mapsto> JNum 200]] (Some 900) =
      Inr (advice_wait 1000 500 500 900)"
    and "generate_advice offline ''can i?'' 1000
      [[''amount'' \<mapsto> JNum 300], [''amount'' \<mapsto> JNum 200]] (Some 0) =
      Inr (advice_affordable 500)"
    by simp_all
  moreover from off fs fr
    fallback_advice [of offline _ _ _ _ "''can i?''"]
  have "generate_advice offline ''can i?'' 10000
      [[''amount'' \<mapsto> JNum 2000], [''amount'' \<mapsto> JNum 1500]] (Some 5000) =
      Inr ''You have $6500.00 available after upcoming commitments. This purchase appears affordable, but ensure you maintain an emergency buffer.''"
    by blast
  ultimately show ?thesis
    unfolding w a using off fs fr s r by simp
qed

subsection \<open>The payload of a question from the fallback classifier\<close>

lemma fallback_question_eq:
  assumes "\<not> list_ex (\<lambda>word. py_in word (lower text)) balance_keywords"
    and "list_ex (\<lambda>word. py_in word (lower text)) question_keywords"
    and "extract_amount text = Inr a"
  shows "fallback_classification text =
     Inr \<lparr>ci_input_type = QUESTION, ci_confidence = 0.7,
          ci_extracted_data = [''question'' \<mapsto> JStr text, ''target_amount'' \<mapsto> JNum a]\<rparr>"
  using assms by (simp add: fallback_classification_def)

lemma QuestionData_fallback:
  "QuestionData e [''question'' \<mapsto> JStr text, ''target_amount'' \<mapsto> JNum a] =
     Inr \<lparr>qd_question = text, qd_target_amount = Some a\<rparr>"
  by (simp add: QuestionData_def validate_str_def validate_float_def validate_optional_def)

text \<open>
  C8 fails as it is stated: for a question without a number, the fallback classifier
  puts the number 0.0 under \<^verbatim>\<open>target_amount\<close>, not an absent value.
\<close>

theorem fallback_question_target_counterexample:
  "\<not> list_ex is_digit ''can i buy this?'' \<and>
   fallback_classification ''can i buy this?'' =
     Inr \<lparr>ci_input_type = QUESTION, ci_confidence = 0.7,
          ci_extracted_data =
            [''question'' \<mapsto> JStr ''can i buy this?'', ''target_amount'' \<mapsto> JNum 0]\<rparr>"
  by (simp add: text_eval)

text \<open>
  C8, amended. When the fallback classifier classifies a text as QUESTION, the payload
  holds the whole text as question and the extracted amount as target amount, and this
  amount is the number 0.0 when the text has no digit. The validation passes the 0.0 on
  as a target, and the Advice Generator answers a target of 0.0 as it answers an absent
  one.
\<close>

theorem fallback_question_payload:
  assumes "\<not> list_ex (\<lambda>word. py_in word (lower text)) balance_keywords"
    and "list_ex (\<lambda>word. py_in word (lower text)) question_keywords"
  shows "\<exists>a. extract_amount text = Inr a \<and>
           fallback_classification text =
             Inr \<lparr>ci_input_type = QUESTION, ci_confidence = 0.7,
                  ci_extracted_data =
                    [''question'' \<mapsto> JStr text, ''target_amount'' \<mapsto> JNum a]\<rparr> \<and>
           (\<not> list_ex is_digit text \<longrightarrow> a = 0) \<and>
           QuestionData e [''question'' \<mapsto> JStr text, ''target_amount'' \<mapsto> JNum a] =
             Inr \<lparr>qd_question = text, qd_target_amount = Some a\<rparr> \<and>
           generate_advice e' q current upcoming (Some 0) =
             generate_advice e' q current upcoming None"
proof -
  obtain a where a: "extract_amount text = Inr a"
    using extract_amount_total by blast
  have "\<not> list_ex is_digit text \<longrightarrow> a = 0"
    using a extract_amount_no_digits [of "text"] by auto
  with a fallback_question_eq [OF assms a] show ?thesis
    by (simp add: QuestionData_fallback generate_advice_zero_target)
qed

theorem fallback_question_payload_witness:
  "\<not> list_ex (\<lambda>word. py_in word (lower ''Should I buy it'')) balance_keywords \<and>
   list_ex (\<lambda>word. py_in word (lower ''Should I buy it'')) question_keywords \<and>
   \<not> list_ex is_digit ''Should I buy it'' \<and>
   fallback_classification ''Should I buy it'' =
     Inr \<lparr>ci_input_type = QUESTION, ci_confidence = 0.7,
          ci_extracted_data =
            [''question'' \<mapsto> JStr ''Should I buy it'', ''target_amount'' \<mapsto> JNum 0]\<rparr> \<and>
   QuestionData offline [''question'' \<mapsto> JStr ''Should I buy it'', ''target_amount'' \<mapsto> JNum 0] =
     Inr \<lparr>qd_question = ''Should I buy it'', qd_target_amount = Some 0\<rparr>"
proof -
  have l: "lower ''Should I buy it'' = ''should i buy it''"
    by (simp add: lower_def lower_char_def)
  have b: "\<not> list_ex (\<lambda>word. py_in word (lower ''Should I buy it'')) balance_keywords"
    unfolding l by (simp add: balance_keywords_def)
  have k: "list_ex (\<lambda>word. py_in word (lower ''Should I buy it'')) question_keywords"
    unfolding l by (simp add: question_keywords_def)
  have n: "\<not> list_ex is_digit ''Should I buy it''"
    by (simp add: is_digit_def)
  from fallback_question_payload [OF b k, of offline offline "[]" 0 "[]"] n
  obtain a where "a = 0"
    and "fallback_classification ''Should I buy it'' =
      Inr \<lparr>ci_input_type = QUESTION, ci_confidence = 0.7,
           ci_extracted_data =
             [''question'' \<mapsto> JStr ''Should I buy it'', ''target_amount'' \<mapsto> JNum a]\<rparr>"
    and "QuestionData offline [''question'' \<mapsto> JStr ''Should I buy it'', ''target_amount'' \<mapsto> JNum a] =
      Inr \<lparr>qd_question = ''Should I buy it'', qd_target_amount = Some a\<rparr>"
    by blast
  with b k n show ?thesis
    by simp
qed

end
